theory Spec2Isabelle
  imports Main
begin

section \<open>Strings\<close>

text \<open>
  Python strings are modelled as \<^typ>\<open>string\<close>, one \<^typ>\<open>char\<close> per character of ASCII
  text. The non-ASCII markers that open some reasoning messages are kept as the byte
  sequences stored in the source file. On ASCII text the lower-casing and the lengths of
  the model are those of Python; outside ASCII \<^verbatim>\<open>str.lower()\<close> also folds other letters
  and lengths count code points, which the model does not follow. The statements on
  keyword accumulation and on the sector choice are therefore made for ASCII corpora.
\<close>

text \<open>\<^verbatim>\<open>str.lower()\<close> on ASCII text: the 26 capital letters are replaced, all else is kept.\<close>

definition lower_char :: "char \<Rightarrow> char" where
  "lower_char c =
     (case map_of (zip ''ABCDEFGHIJKLMNOPQRSTUVWXYZ'' ''abcdefghijklmnopqrstuvwxyz'') c of
        Some d \<Rightarrow> d
      | None \<Rightarrow> c)"

definition lower :: "string \<Rightarrow> string" where
  "lower s = map lower_char s"

fun startswith :: "string \<Rightarrow> string \<Rightarrow> bool" where
  "startswith t [] = True"
| "startswith [] (k # ks) = False"
| "startswith (c # cs) (k # ks) = (c = k \<and> startswith cs ks)"

text \<open>\<^verbatim>\<open>kw in text\<close> on strings: \<open>kw\<close> occurs as a contiguous substring.\<close>

fun str_in :: "string \<Rightarrow> string \<Rightarrow> bool" where
  "str_in kw [] = (kw = [])"
| "str_in kw (c # cs) = (startswith (c # cs) kw \<or> str_in kw cs)"

text \<open>\<^verbatim>\<open>any(kw in text for kw in keywords)\<close>\<close>

definition any_in :: "string list \<Rightarrow> string \<Rightarrow> bool" where
  "any_in keywords text = list_ex (\<lambda>kw. str_in kw text) keywords"

section \<open>Data model\<close>

datatype RiskLevel =
    PROHIBITED
  | HIGH_RISK
  | LOW_RISK
  | TRANSPARENCY_REQUIREMENTS
  | GPAI_REQUIREMENTS
  | EXCEPTION

record AISystemProfile =
  name :: string
  company :: string
  description :: string
  sector :: string
  primary_purpose :: string
  user_base :: string
  biometrics_involved :: bool
  biometrics_purpose :: "string option"
  decision_making_role :: string
  high_risk_context :: "string list"
  data_processed :: "string list"
  deployment_context :: string
  additional_info :: "string option"
  search_sources :: "string list"

record ClassificationResult =
  risk_level :: RiskLevel
  reasoning :: "string list"
  relevant_articles :: "string list"
  decision_path :: "string list"
  confidence :: string
  recommendations :: "string list"

section \<open>Stage 1: information harvesting\<close>

subsection \<open>String helpers\<close>

definition is_upper :: "char \<Rightarrow> bool" where
  "is_upper c = (c \<in> set ''ABCDEFGHIJKLMNOPQRSTUVWXYZ'')"

definition is_lower :: "char \<Rightarrow> bool" where
  "is_lower c = (c \<in> set ''abcdefghijklmnopqrstuvwxyz'')"

definition upper_char :: "char \<Rightarrow> char" where
  "upper_char c =
     (case map_of (zip ''abcdefghijklmnopqrstuvwxyz'' ''ABCDEFGHIJKLMNOPQRSTUVWXYZ'') c of
        Some d \<Rightarrow> d
      | None \<Rightarrow> c)"

text \<open>
  \<^verbatim>\<open>str.title()\<close>: a cased character is made upper case when the character before it is not
  cased, and lower case otherwise. The flag says whether the previous character was cased.
\<close>

fun title_from :: "bool \<Rightarrow> string \<Rightarrow> string" where
  "title_from prev [] = []"
| "title_from prev (c # cs) =
     (if is_lower c then (if prev then c else upper_char c) # title_from True cs
      else if is_upper c then (if prev then lower_char c else c) # title_from True cs
      else c # title_from False cs)"

definition title :: "string \<Rightarrow> string" where
  "title s = title_from False s"

text \<open>\<^verbatim>\<open>str.split(sep)\<close> for a separator of one character.\<close>

fun split_on :: "char \<Rightarrow> string \<Rightarrow> string list" where
  "split_on d [] = ['''']"
| "split_on d (c # cs) =
     (if c = d then [] # split_on d cs
      else (case split_on d cs of
              x # xs \<Rightarrow> (c # x) # xs
            | [] \<Rightarrow> [c] # []))"

text \<open>The ASCII characters for which \<^verbatim>\<open>str.isspace()\<close> holds, and \<^verbatim>\<open>str.strip()\<close>.\<close>

definition is_space :: "char \<Rightarrow> bool" where
  "is_space c =
     (c \<in> set [CHR 0x09, CHR 0x0A, CHR 0x0B, CHR 0x0C, CHR 0x0D,
                CHR 0x1C, CHR 0x1D, CHR 0x1E, CHR 0x1F, CHR 0x20])"

definition strip :: "string \<Rightarrow> string" where
  "strip s = rev (dropWhile is_space (rev (dropWhile is_space s)))"

text \<open>\<^verbatim>\<open>sep.join(parts)\<close>\<close>

fun join :: "string \<Rightarrow> string list \<Rightarrow> string" where
  "join sep [] = []"
| "join sep [x] = x"
| "join sep (x # y # ys) = x @ sep @ join sep (y # ys)"

subsection \<open>The search collaborator\<close>

text \<open>
  A record returned by the provider is a dictionary in which each of the three keys may be
  missing. A provider call either raises (\<open>Inl\<close>, with the message) or returns its records.
  \<open>DDGS\<close> is the outcome of opening the provider session, which may raise as well.
\<close>

record provider_record =
  rec_title :: "string option"
  rec_body :: "string option"
  rec_href :: "string option"

type_synonym ddgs_text = "string \<Rightarrow> nat \<Rightarrow> string + provider_record list"

record search_env =
  SEARCH_AVAILABLE :: bool
  DDGS :: "string + ddgs_text"

record collected_result =
  title_of :: string
  snippet :: string
  url :: string

text \<open>\<^verbatim>\<open>d.get(key, default)\<close> on a key that may be missing.\<close>

definition get_or :: "'a option \<Rightarrow> 'a \<Rightarrow> 'a" where
  "get_or v d = (case v of Some x \<Rightarrow> x | None \<Rightarrow> d)"

text \<open>
  \<^verbatim>\<open>result.get('href') not in sources\<close>: without a default, a missing key yields
  \<^verbatim>\<open>None\<close>, which is never an element of the list of strings.
\<close>

definition href_not_in :: "string option \<Rightarrow> string list \<Rightarrow> bool" where
  "href_not_in h sources = (case h of None \<Rightarrow> True | Some u \<Rightarrow> u \<notin> set sources)"

fun collect_results ::
  "provider_record list \<Rightarrow> collected_result list \<times> string list
     \<Rightarrow> collected_result list \<times> string list" where
  "collect_results [] acc = acc"
| "collect_results (result # rest) (all_results, sources) =
     (if href_not_in (rec_href result) sources
      then collect_results rest
             (all_results @ [\<lparr>title_of = get_or (rec_title result) [],
                               snippet = get_or (rec_body result) [],
                               url = get_or (rec_href result) []\<rparr>],
              sources @ [get_or (rec_href result) []])
      else collect_results rest (all_results, sources))"

fun run_queries ::
  "ddgs_text \<Rightarrow> string list \<Rightarrow> collected_result list \<times> string list
     \<Rightarrow> collected_result list \<times> string list" where
  "run_queries ddgs [] acc = acc"
| "run_queries ddgs (query # queries) acc =
     (case ddgs query 3 of
        Inl e \<Rightarrow> run_queries ddgs queries acc
      | Inr results \<Rightarrow> run_queries ddgs queries (collect_results results acc))"

text \<open>
  Every collected result has its three keys, so the default \<^verbatim>\<open>'Source'\<close> of the title
  lookup in \<^verbatim>\<open>_format_search_results\<close> is never taken.
\<close>

definition format_search_results :: "collected_result list \<Rightarrow> string" where
  "format_search_results results =
     (if results = [] then []
      else join ''\<newline>''
             (map (\<lambda>result. ''- '' @ title_of result @ '': '' @ snippet result)
                (filter (\<lambda>result. snippet result \<noteq> []) results)))"

definition search_queries :: "string \<Rightarrow> string \<Rightarrow> string list" where
  "search_queries nm co =
     [co @ '' '' @ nm @ '' AI system'', co @ '' '' @ nm @ '' use case application'']"

definition search_for_system ::
  "search_env \<Rightarrow> string \<Rightarrow> string \<Rightarrow> string \<Rightarrow> string \<times> string list" where
  "search_for_system env nm co descr =
     (if \<not> SEARCH_AVAILABLE env then ([], [])
      else case DDGS env of
             Inl e \<Rightarrow> ([], [])
           | Inr ddgs \<Rightarrow>
               (let (all_results, sources) = run_queries ddgs (search_queries nm co) ([], [])
                in (format_search_results all_results, sources)))"

subsection \<open>Taxonomies\<close>

text \<open>The keyword dictionaries, in declaration order (the order in which they are iterated).\<close>

definition sector_keywords :: "(string \<times> string list) list" where
  "sector_keywords =
     [(''automotive'', [''car'', ''vehicle'', ''driver'', ''automotive'', ''driving'',
      ''autonomous'']),
      (''healthcare'', [''health'', ''medical'', ''patient'', ''clinical'', ''diagnosis'',
                        ''treatment'', ''hospital'']),
      (''financial'', [''bank'', ''finance'', ''credit'', ''loan'', ''mortgage'', ''payment'',
                       ''insurance'']),
      (''education'', [''education'', ''student'', ''learning'', ''school'', ''university'',
                       ''academic'']),
      (''law enforcement'', [''police'', ''law enforcement'', ''crime'', ''investigation'',
                             ''surveillance'']),
      (''employment'', [''recruitment'', ''hiring'', ''employment'', ''hr'', ''candidate'',
                        ''job'']),
      (''critical infrastructure'', [''infrastructure'', ''energy'', ''water'', ''electricity'',
                                     ''utility'']),
      (''border control'', [''border'', ''migration'', ''asylum'', ''immigration'', ''customs'']),
      (''justice'', [''court'', ''justice'', ''legal'', ''judicial'', ''litigation''])]"

definition biometric_indicators :: "(string \<times> string list) list" where
  "biometric_indicators =
     [(''facial recognition'', [''facial recognition'', ''face recognition'', ''face detection'',
      ''facial identification'']),
      (''fingerprint'', [''fingerprint'', ''fingerprint scan'', ''fingerprint recognition'']),
      (''emotion recognition'', [''emotion recognition'', ''emotion detection'',
                                 ''emotional state'', ''sentiment analysis'']),
      (''voice biometric'', [''voice recognition'', ''speaker identification'',
                             ''voice biometric'']),
      (''iris scan'', [''iris scan'', ''iris recognition'', ''retinal scan'']),
      (''gait recognition'', [''gait'', ''walking pattern'']),
      (''behavioral biometric'', [''keystroke'', ''mouse movement'', ''behavioral biometric''])]"

definition decision_indicators :: "(string \<times> string list) list" where
  "decision_indicators =
     [(''Decision-making'', [''decide'', ''decision'', ''approve'', ''reject'', ''determine'',
      ''evaluate'', ''assess'', ''score'', ''rate'']),
      (''Assistive/Recommendatory'', [''recommend'', ''suggest'', ''assist'', ''advise'',
                                      ''guide'', ''help'']),
      (''Fully Automated Decision'', [''automated decision'', ''automatic decision'',
                                      ''without human intervention'']),
      (''Informational'', [''inform'', ''display'', ''show'', ''present'', ''visualize''])]"

definition risk_indicators :: "(string \<times> string list) list" where
  "risk_indicators =
     [(''Safety-critical environment'', [''safety'', ''critical'', ''emergency'',
      ''life-threatening'']),
      (''Vehicle operation'', [''vehicle'', ''car'', ''driver'', ''driving'',
                               ''autonomous vehicle'', ''self-driving'']),
      (''Medical decision'', [''diagnosis'', ''treatment'', ''medical decision'',
                              ''clinical decision'', ''patient care'']),
      (''Financial decision'', [''credit'', ''loan'', ''financial decision'', ''creditworthiness'',
                                ''credit score'']),
      (''Law enforcement'', [''law enforcement'', ''police'', ''crime'', ''investigation'',
                             ''predictive policing'']),
      (''Employment decision'', [''recruitment'', ''hiring'', ''employment decision'',
                                 ''candidate selection'', ''performance evaluation'']),
      (''Educational assessment'', [''exam'', ''grade'', ''admission'', ''educational assessment'',
                                    ''student evaluation'']),
      (''Border control'', [''border'', ''migration'', ''asylum'', ''visa'', ''immigration'']),
      (''Justice administration'', [''court'', ''judge'', ''judicial'', ''legal proceeding'',
                                    ''evidence'']),
      (''Essential services access'', [''public benefit'', ''social service'',
                                       ''essential service'', ''welfare'']),
      (''Critical infrastructure'', [''power grid'', ''water supply'', ''transportation system'',
                                     ''energy infrastructure''])]"

definition data_indicators :: "(string \<times> string list) list" where
  "data_indicators =
     [(''Personal data'', [''personal'', ''user data'', ''individual data'']),
      (''Location data'', [''location'', ''navigation'', ''gps'', ''geolocation'']),
      (''Biometric data'', [''biometric'', ''facial'', ''fingerprint'', ''iris'', ''voice print'']),
      (''Voice/Audio data'', [''voice'', ''speech'', ''audio'', ''conversation'', ''recording'']),
      (''Video/Image data'', [''video'', ''camera'', ''image'', ''photograph'', ''visual'']),
      (''Financial data'', [''financial'', ''transaction'', ''payment'', ''banking'',
                            ''credit card'']),
      (''Health data'', [''health'', ''medical'', ''clinical'', ''patient record'', ''diagnosis'']),
      (''Behavioral data'', [''behavior'', ''behaviour'', ''pattern'', ''habit'', ''activity'']),
      (''Sensitive attributes'', [''race'', ''ethnicity'', ''religion'', ''political'',
                                  ''sexual orientation'', ''health status''])]"

definition deployment_contexts :: "(string \<times> string list) list" where
  "deployment_contexts =
     [(''In-vehicle system'', [''vehicle'', ''car'', ''automotive'', ''in-car'']),
      (''Healthcare facility'', [''hospital'', ''clinic'', ''medical facility'', ''healthcare'']),
      (''Workplace'', [''workplace'', ''office'', ''work environment'', ''employee'']),
      (''Public space'', [''public'', ''street'', ''outdoor'', ''public area'']),
      (''Educational institution'', [''school'', ''university'', ''classroom'', ''campus'']),
      (''Border crossing'', [''border'', ''airport'', ''customs'', ''immigration'']),
      (''Law enforcement'', [''police station'', ''law enforcement'', ''investigation'']),
      (''Court/Legal'', [''court'', ''courthouse'', ''legal proceeding'']),
      (''Online service'', [''online'', ''web'', ''app'', ''digital'', ''cloud'']),
      (''Critical infrastructure'', [''power plant'', ''water treatment'', ''infrastructure''])]"

definition user_bases :: "(string \<times> string list) list" where
  "user_bases =
     [(''Vehicle drivers and passengers'', [''driver'', ''passenger'', ''vehicle occupant'']),
      (''Patients and healthcare providers'', [''patient'', ''doctor'', ''nurse'', ''clinician'',
                                               ''healthcare provider'']),
      (''General consumers'', [''customer'', ''consumer'', ''user'', ''client'']),
      (''Employees and workers'', [''employee'', ''worker'', ''staff'', ''personnel'']),
      (''Students and educators'', [''student'', ''teacher'', ''educator'', ''learner'']),
      (''Law enforcement officers'', [''police'', ''officer'', ''law enforcement'']),
      (''Border control agents'', [''border agent'', ''customs officer'', ''immigration officer'']),
      (''Judges and legal professionals'', [''judge'', ''lawyer'', ''attorney'',
                                            ''legal professional'']),
      (''General public'', [''public'', ''citizen'', ''resident'', ''population''])]"

subsection \<open>Matching disciplines\<close>

text \<open>The sector loop: the running best is replaced only by a strictly greater count.\<close>

fun sector_loop ::
  "(string \<times> string list) list \<Rightarrow> string \<Rightarrow> string \<times> nat \<Rightarrow> string \<times> nat" where
  "sector_loop [] text_lower best = best"
| "sector_loop ((sec, keywords) # rest) text_lower (sector_name, sector_confidence) =
     (let matches = length (filter (\<lambda>kw. str_in kw text_lower) keywords) in
      if matches > sector_confidence
      then sector_loop rest text_lower (title sec, matches)
      else sector_loop rest text_lower (sector_name, sector_confidence))"

text \<open>Loops that stop at the first label with a keyword present.\<close>

fun first_hit :: "(string \<times> string list) list \<Rightarrow> string \<Rightarrow> string \<Rightarrow> string" where
  "first_hit [] text_lower dflt = dflt"
| "first_hit ((label, keywords) # rest) text_lower dflt =
     (if any_in keywords text_lower then label else first_hit rest text_lower dflt)"

text \<open>Loops that go through every label and append each one with a keyword present.\<close>

fun all_hits :: "(string \<times> string list) list \<Rightarrow> string \<Rightarrow> string list \<Rightarrow> string list" where
  "all_hits [] text_lower acc = acc"
| "all_hits ((label, keywords) # rest) text_lower acc =
     (if any_in keywords text_lower then all_hits rest text_lower (acc @ [label])
      else all_hits rest text_lower acc)"

definition determine_purpose :: "string \<Rightarrow> string option" where
  "determine_purpose text_lower =
     (if str_in ''identification'' text_lower \<or> str_in ''identify'' text_lower
      then Some ''identification''
      else if str_in ''emotion'' text_lower \<or> str_in ''sentiment'' text_lower
      then Some ''emotion recognition''
      else if str_in ''categorization'' text_lower \<or> str_in ''categorisation'' text_lower
      then Some ''categorisation''
      else if str_in ''verification'' text_lower \<or> str_in ''authenticate'' text_lower
      then Some ''authentication''
      else None)"

fun biometric_loop :: "(string \<times> string list) list \<Rightarrow> string \<Rightarrow> bool \<times> string option" where
  "biometric_loop [] text_lower = (False, None)"
| "biometric_loop ((bio_type, keywords) # rest) text_lower =
     (if any_in keywords text_lower then (True, determine_purpose text_lower)
      else biometric_loop rest text_lower)"

subsection \<open>Purpose extraction\<close>

text \<open>
  The bounds 20, 30 and 200 and the cut at 150 count the characters of the sentence, which
  on ASCII text are the elements of the modelled string.
\<close>

fun purpose_first_pass :: "string list \<Rightarrow> string \<Rightarrow> string option" where
  "purpose_first_pass [] nm = None"
| "purpose_first_pass (sentence # rest) nm =
     (if (str_in (lower nm) (lower sentence)
          \<or> any_in [''uses'', ''enables'', ''provides'', ''helps''] (lower sentence))
         \<and> length (strip sentence) > 20 \<and> length (strip sentence) < 200
      then Some (strip sentence)
      else purpose_first_pass rest nm)"

fun purpose_fallback :: "string list \<Rightarrow> string option" where
  "purpose_fallback [] = None"
| "purpose_fallback (sentence # rest) =
     (if length (strip sentence) > 30 then Some (take 150 (strip sentence))
      else purpose_fallback rest)"

definition extract_primary_purpose :: "string \<Rightarrow> string \<Rightarrow> string" where
  "extract_primary_purpose text nm =
     (let sentences = split_on CHR ''.'' text in
      case purpose_first_pass sentences nm of
        Some cleaned \<Rightarrow> cleaned
      | None \<Rightarrow>
          (case purpose_fallback sentences of
             Some cleaned \<Rightarrow> cleaned
           | None \<Rightarrow> take 150 text))"

subsection \<open>Profile building\<close>

text \<open>The dictionary returned by \<^verbatim>\<open>_analyze_description\<close>, one field per key.\<close>

record analysis =
  an_sector :: string
  an_primary_purpose :: string
  an_user_base :: string
  an_biometrics_involved :: bool
  an_biometrics_purpose :: "string option"
  an_decision_making_role :: string
  an_high_risk_contexts :: "string list"
  an_data_processed :: "string list"
  an_deployment_context :: string

definition analyze_description :: "string \<Rightarrow> string \<Rightarrow> string \<Rightarrow> analysis" where
  "analyze_description full_text nm co =
     (let text_lower = lower full_text;
          (bio_involved, bio_purpose) = biometric_loop biometric_indicators text_lower
      in \<lparr>an_sector = fst (sector_loop sector_keywords text_lower (''General'', 0)),
          an_primary_purpose = extract_primary_purpose full_text nm,
          an_user_base = first_hit user_bases text_lower ''General public'',
          an_biometrics_involved = bio_involved,
          an_biometrics_purpose = bio_purpose,
          an_decision_making_role = first_hit decision_indicators text_lower ''Informational'',
          an_high_risk_contexts = all_hits risk_indicators text_lower [],
          an_data_processed = all_hits data_indicators text_lower [],
          an_deployment_context =
            first_hit deployment_contexts text_lower ''General commercial use''\<rparr>)"

text \<open>The first step of \<^verbatim>\<open>harvest_from_description\<close>: the supplementary text and its sources.\<close>

definition search_step ::
  "bool \<Rightarrow> search_env \<Rightarrow> string \<Rightarrow> string \<Rightarrow> string \<Rightarrow> string \<times> string list" where
  "search_step enable_search env nm co descr =
     (if enable_search then search_for_system env nm co descr else ([], []))"

text \<open>The text handed to \<^verbatim>\<open>_analyze_description\<close>.\<close>

definition combined_info :: "string \<Rightarrow> string \<Rightarrow> string" where
  "combined_info descr search_info =
     descr @ ''\<newline>\<newline>Additional Context from Web Search:\<newline>'' @ search_info"

definition harvest_from_description ::
  "bool \<Rightarrow> search_env \<Rightarrow> string \<Rightarrow> string \<Rightarrow> string \<Rightarrow> AISystemProfile" where
  "harvest_from_description enable_search env nm co descr =
     (let (search_info, sources) = search_step enable_search env nm co descr;
          a = analyze_description (combined_info descr search_info) nm co
      in \<lparr>name = nm,
          company = co,
          description = descr,
          sector = an_sector a,
          primary_purpose = an_primary_purpose a,
          user_base = an_user_base a,
          biometrics_involved = an_biometrics_involved a,
          biometrics_purpose = an_biometrics_purpose a,
          decision_making_role = an_decision_making_role a,
          high_risk_context = an_high_risk_contexts a,
          data_processed = an_data_processed a,
          deployment_context = an_deployment_context a,
          additional_info = (if search_info \<noteq> [] then Some search_info else None),
          search_sources = sources\<rparr>)"

section \<open>Stage 2: the decision engine\<close>

text \<open>
  The three accumulators of a \<^verbatim>\<open>RiskClassificationAgent\<close> instance. Every method takes the
  instance state and returns the updated one beside its result.
\<close>

record RiskClassificationAgent =
  self_decision_path :: "string list"
  self_reasoning :: "string list"
  self_recommendations :: "string list"

definition init_agent :: RiskClassificationAgent where
  "init_agent = \<lparr>self_decision_path = [], self_reasoning = [], self_recommendations = []\<rparr>"

definition path_append :: "string \<Rightarrow> RiskClassificationAgent \<Rightarrow> RiskClassificationAgent" where
  "path_append l s = s\<lparr>self_decision_path := self_decision_path s @ [l]\<rparr>"

definition reasoning_append :: "string \<Rightarrow> RiskClassificationAgent \<Rightarrow> RiskClassificationAgent" where
  "reasoning_append r s = s\<lparr>self_reasoning := self_reasoning s @ [r]\<rparr>"

definition recommendations_extend ::
  "string list \<Rightarrow> RiskClassificationAgent \<Rightarrow> RiskClassificationAgent" where
  "recommendations_extend rs s = s\<lparr>self_recommendations := self_recommendations s @ rs\<rparr>"

definition prohibited_mark :: string where
  "prohibited_mark = [CHR 0xC3, CHR 0xB0, CHR 0xC5, CHR 0xB8, CHR 0xC5, CHR 0xA1, CHR 0xC2, CHR 0xAB]"

definition high_risk_mark :: string where
  "high_risk_mark =
     [CHR 0xC3, CHR 0xA2, CHR 0xC5, CHR 0xA1, CHR 0xC2, CHR 0xA0, CHR 0xC3, CHR 0xAF, CHR 0xC2, CHR 0xB8]"

definition transparency_mark :: string where
  "transparency_mark =
     [CHR 0xC3, CHR 0xA2, CHR 0xE2, CHR 0x80, CHR 0x9E, CHR 0xC2, CHR 0xB9, CHR 0xC3, CHR 0xAF,
      CHR 0xC2, CHR 0xB8]"

definition check_exceptions ::
  "RiskClassificationAgent \<Rightarrow> AISystemProfile \<Rightarrow> bool \<times> RiskClassificationAgent" where
  "check_exceptions s0 profile =
     (let s = path_append ''Article 2: Scope exceptions'' s0 in
      if str_in ''research'' (lower (description profile))
         \<and> str_in ''scientific'' (lower (description profile))
      then (True, reasoning_append
              ''May qualify for scientific research exception (Article 2.6)'' s)
      else if any_in [''military'', ''defence'', ''defense''] (lower (description profile))
      then (True, reasoning_append ''Military/defence exception applies (Article 2.3)'' s)
      else (False, s))"

definition check_prohibited ::
  "RiskClassificationAgent \<Rightarrow> AISystemProfile \<Rightarrow> bool \<times> RiskClassificationAgent" where
  "check_prohibited s0 profile =
     (let s = path_append ''Article 5: Prohibited AI practices'' s0 in
      if any_in [''manipulate'', ''subliminal'', ''exploit vulnerabilities'']
           (lower (description profile))
      then (True, reasoning_append
              (prohibited_mark @ '' PROHIBITED: Subliminal manipulation (Article 5.1a)'') s)
      else if str_in ''social scor'' (lower (description profile))
      then (True, reasoning_append
              (prohibited_mark @ '' PROHIBITED: Social scoring system (Article 5.1c)'') s)
      else if biometrics_involved profile
              \<and> biometrics_purpose profile = Some ''identification''
              \<and> (str_in ''real-time'' (lower (description profile))
                   \<or> str_in ''live'' (lower (description profile)))
              \<and> str_in ''public'' (lower (deployment_context profile))
      then (True, reasoning_append
              (prohibited_mark
                 @ '' PROHIBITED: Real-time remote biometric identification (Article 5.1h)'') s)
      else if biometrics_purpose profile = Some ''emotion recognition''
              \<and> list_ex (\<lambda>ctx. ctx \<in> set (high_risk_context profile))
                    [''Workplace'', ''Educational assessment'']
      then (True, reasoning_append
              (prohibited_mark
                 @ '' PROHIBITED: Emotion recognition in workplace/education (Article 5.1f)'') s)
      else (False, s))"

definition general_recommendations :: "string list" where
  "general_recommendations =
     [''Implement risk management system (Article 9)'',
      ''Ensure high-quality training data (Article 10)'',
      ''Maintain technical documentation (Article 11)'',
      ''Enable logging and traceability (Article 12)'',
      ''Implement human oversight (Article 14)'',
      ''Ensure accuracy and robustness (Article 15)'',
      ''Undergo conformity assessment (Article 43)'',
      ''Register in EU database (Article 71)'']"

definition specific_recommendations :: "(string \<times> string list) list" where
  "specific_recommendations =
     [(''safety'', [''Conduct vehicle safety testing'', ''Implement fail-safe mechanisms'']),
      (''biometric'', [''Strict biometric data access controls'', ''GDPR compliance'']),
      (''employment'', [''Human-in-the-loop for decisions'', ''Bias testing'']),
      (''border_control'', [''Data protection for sensitive data'', ''Appeal mechanisms''])]"

definition add_high_risk_recommendations ::
  "string \<Rightarrow> RiskClassificationAgent \<Rightarrow> RiskClassificationAgent" where
  "add_high_risk_recommendations category s =
     (let s1 = recommendations_extend general_recommendations s in
      case map_of specific_recommendations category of
        Some extra \<Rightarrow> recommendations_extend extra s1
      | None \<Rightarrow> s1)"

definition check_high_risk ::
  "RiskClassificationAgent \<Rightarrow> AISystemProfile \<Rightarrow> bool \<times> RiskClassificationAgent" where
  "check_high_risk s0 profile =
     (let s = path_append ''Article 6 & Annex III: High-risk systems'' s0 in
      if biometrics_involved profile
         \<and> biometrics_purpose profile \<in> set [Some ''identification'', Some ''categorisation'']
      then (True, add_high_risk_recommendations ''biometric''
              (reasoning_append
                 (high_risk_mark @ '' HIGH-RISK: Biometric identification system (Annex III.1)'') s))
      else if ''Critical infrastructure'' \<in> set (high_risk_context profile)
      then (True, add_high_risk_recommendations ''infrastructure''
              (reasoning_append
                 (high_risk_mark @ '' HIGH-RISK: Critical infrastructure system (Annex III.2)'') s))
      else if ''Safety-critical environment'' \<in> set (high_risk_context profile)
              \<or> ''Vehicle operation'' \<in> set (high_risk_context profile)
      then (True, add_high_risk_recommendations ''safety''
              (reasoning_append ''System operates in safety-critical context''
                 (reasoning_append
                    (high_risk_mark
                       @ '' HIGH-RISK: Safety component in vehicle operation (Annex III.2)'') s)))
      else if ''Educational assessment'' \<in> set (high_risk_context profile)
      then (True, add_high_risk_recommendations ''education''
              (reasoning_append
                 (high_risk_mark @ '' HIGH-RISK: Educational assessment system (Annex III.3)'') s))
      else if ''Employment decision'' \<in> set (high_risk_context profile)
      then (True, add_high_risk_recommendations ''employment''
              (reasoning_append
                 (high_risk_mark @ '' HIGH-RISK: Employment decision system (Annex III.4)'') s))
      else if ''Essential services access'' \<in> set (high_risk_context profile)
              \<or> ''Financial decision'' \<in> set (high_risk_context profile)
      then (True, add_high_risk_recommendations ''essential_services''
              (reasoning_append
                 (high_risk_mark
                    @ '' HIGH-RISK: Essential services/creditworthiness (Annex III.5)'') s))
      else if ''Law enforcement'' \<in> set (high_risk_context profile)
      then (True, add_high_risk_recommendations ''law_enforcement''
              (reasoning_append
                 (high_risk_mark @ '' HIGH-RISK: Law enforcement application (Annex III.6)'') s))
      else if ''Border control'' \<in> set (high_risk_context profile)
      then (True, add_high_risk_recommendations ''border_control''
              (reasoning_append
                 (high_risk_mark @ '' HIGH-RISK: Border control system (Annex III.7)'') s))
      else if ''Justice administration'' \<in> set (high_risk_context profile)
      then (True, add_high_risk_recommendations ''justice''
              (reasoning_append
                 (high_risk_mark @ '' HIGH-RISK: Administration of justice (Annex III.8)'') s))
      else (False, s))"

definition check_transparency ::
  "RiskClassificationAgent \<Rightarrow> AISystemProfile \<Rightarrow> bool \<times> RiskClassificationAgent" where
  "check_transparency s0 profile =
     (let s = path_append ''Article 50: Transparency requirements'' s0 in
      if any_in [''chat'', ''conversational'', ''assistant'', ''interact'']
           (lower (description profile))
      then (True, recommendations_extend [''Disclose AI interaction to users'']
              (reasoning_append
                 (transparency_mark @ '' TRANSPARENCY: Interactive AI system (Article 50.1)'') s))
      else if str_in ''generat'' (lower (description profile))
      then (True, recommendations_extend [''Label AI-generated content'']
              (reasoning_append
                 (transparency_mark @ '' TRANSPARENCY: Generative AI system (Article 50.2)'') s))
      else (False, s))"

fun articles :: "RiskLevel \<Rightarrow> string list" where
  "articles PROHIBITED = [''Article 5 - Prohibited Practices'']"
| "articles HIGH_RISK = [''Article 6 & Annex III'', ''Articles 8-15 - Requirements'']"
| "articles TRANSPARENCY_REQUIREMENTS = [''Article 50 - Transparency'']"
| "articles LOW_RISK = [''Article 69 - Codes of Conduct (voluntary)'']"
| "articles EXCEPTION = [''Article 2 - Scope exceptions'']"
| "articles GPAI_REQUIREMENTS = []"

definition create_result :: "RiskClassificationAgent \<Rightarrow> RiskLevel \<Rightarrow> ClassificationResult" where
  "create_result s lvl =
     \<lparr>risk_level = lvl,
      reasoning = (if self_reasoning s \<noteq> [] then self_reasoning s
                   else [''No specific risks identified'']),
      relevant_articles = articles lvl,
      decision_path = self_decision_path s,
      confidence = (if length (self_reasoning s) \<ge> 3 then ''High''
                    else if length (self_reasoning s) \<ge> 2 then ''Medium''
                    else ''Low''),
      recommendations = (if self_recommendations s \<noteq> [] then self_recommendations s
                         else [''Monitor regulatory developments''])\<rparr>"

text \<open>
  \<^verbatim>\<open>classify\<close> returns the result together with the instance state it leaves behind, so
  that a later call on the same instance can be modelled.
\<close>

definition classify ::
  "RiskClassificationAgent \<Rightarrow> AISystemProfile \<Rightarrow> ClassificationResult \<times> RiskClassificationAgent"
  where
  "classify self profile =
     (let s0 = self\<lparr>self_decision_path := [], self_reasoning := [], self_recommendations := []\<rparr>;
          (b1, s1) = check_exceptions s0 profile in
      if b1 then (create_result s1 EXCEPTION, s1)
      else let (b2, s2) = check_prohibited s1 profile in
      if b2 then (create_result s2 PROHIBITED, s2)
      else let (b3, s3) = check_high_risk s2 profile in
      if b3 then (create_result s3 HIGH_RISK, s3)
      else let (b4, s4) = check_transparency s3 profile in
      if b4 then (create_result s4 TRANSPARENCY_REQUIREMENTS, s4)
      else (create_result s4 LOW_RISK, s4))"

section \<open>Reference definitions and example inputs\<close>

text \<open>The labels of the four tested stages, in the order of the rule chain.\<close>

definition stage_labels :: "string list" where
  "stage_labels =
     [''Article 2: Scope exceptions'',
      ''Article 5: Prohibited AI practices'',
      ''Article 6 & Annex III: High-risk systems'',
      ''Article 50: Transparency requirements'']"

text \<open>
  The nine Annex III categories of the high-risk stage as a priority table: the order in
  which they are to be checked, the condition of each on the profile, the reasoning lines
  it records, and its category-specific recommendations.
\<close>

datatype annex_category =
    Biometric | CriticalInfrastructure | SafetyVehicle | Education | Employment
  | EssentialServices | LawEnforcement | BorderControl | Justice

definition annex_priority :: "annex_category list" where
  "annex_priority =
     [Biometric, CriticalInfrastructure, SafetyVehicle, Education, Employment,
      EssentialServices, LawEnforcement, BorderControl, Justice]"

fun category_applies :: "annex_category \<Rightarrow> AISystemProfile \<Rightarrow> bool" where
  "category_applies Biometric p =
     (biometrics_involved p
      \<and> biometrics_purpose p \<in> set [Some ''identification'', Some ''categorisation''])"
| "category_applies CriticalInfrastructure p =
     (''Critical infrastructure'' \<in> set (high_risk_context p))"
| "category_applies SafetyVehicle p =
     (''Safety-critical environment'' \<in> set (high_risk_context p)
      \<or> ''Vehicle operation'' \<in> set (high_risk_context p))"
| "category_applies Education p = (''Educational assessment'' \<in> set (high_risk_context p))"
| "category_applies Employment p = (''Employment decision'' \<in> set (high_risk_context p))"
| "category_applies EssentialServices p =
     (''Essential services access'' \<in> set (high_risk_context p)
      \<or> ''Financial decision'' \<in> set (high_risk_context p))"
| "category_applies LawEnforcement p = (''Law enforcement'' \<in> set (high_risk_context p))"
| "category_applies BorderControl p = (''Border control'' \<in> set (high_risk_context p))"
| "category_applies Justice p = (''Justice administration'' \<in> set (high_risk_context p))"

fun category_reasoning :: "annex_category \<Rightarrow> string list" where
  "category_reasoning Biometric =
     [high_risk_mark @ '' HIGH-RISK: Biometric identification system (Annex III.1)'']"
| "category_reasoning CriticalInfrastructure =
     [high_risk_mark @ '' HIGH-RISK: Critical infrastructure system (Annex III.2)'']"
| "category_reasoning SafetyVehicle =
     [high_risk_mark @ '' HIGH-RISK: Safety component in vehicle operation (Annex III.2)'',
      ''System operates in safety-critical context'']"
| "category_reasoning Education =
     [high_risk_mark @ '' HIGH-RISK: Educational assessment system (Annex III.3)'']"
| "category_reasoning Employment =
     [high_risk_mark @ '' HIGH-RISK: Employment decision system (Annex III.4)'']"
| "category_reasoning EssentialServices =
     [high_risk_mark @ '' HIGH-RISK: Essential services/creditworthiness (Annex III.5)'']"
| "category_reasoning LawEnforcement =
     [high_risk_mark @ '' HIGH-RISK: Law enforcement application (Annex III.6)'']"
| "category_reasoning BorderControl =
     [high_risk_mark @ '' HIGH-RISK: Border control system (Annex III.7)'']"
| "category_reasoning Justice =
     [high_risk_mark @ '' HIGH-RISK: Administration of justice (Annex III.8)'']"

fun category_extras :: "annex_category \<Rightarrow> string list" where
  "category_extras Biometric = [''Strict biometric data access controls'', ''GDPR compliance'']"
| "category_extras SafetyVehicle =
     [''Conduct vehicle safety testing'', ''Implement fail-safe mechanisms'']"
| "category_extras Employment = [''Human-in-the-loop for decisions'', ''Bias testing'']"
| "category_extras BorderControl =
     [''Data protection for sensitive data'', ''Appeal mechanisms'']"
| "category_extras c = []"

text \<open>The state and result of the high-risk stage when category \<open>c\<close> is the one recorded.\<close>

definition hr_hit ::
  "RiskClassificationAgent \<Rightarrow> annex_category \<Rightarrow> bool \<times> RiskClassificationAgent" where
  "hr_hit s c =
     (True, s\<lparr>self_decision_path :=
                 self_decision_path s @ [''Article 6 & Annex III: High-risk systems''],
               self_reasoning := self_reasoning s @ category_reasoning c,
               self_recommendations :=
                 self_recommendations s @ general_recommendations @ category_extras c\<rparr>)"

text \<open>The fixed separator that comes between the description and the supplementary text.\<close>

definition context_header :: string where
  "context_header = ''\<newline>\<newline>Additional Context from Web Search:\<newline>''"

text \<open>A text in which every character is ASCII, as \<^verbatim>\<open>str.isascii()\<close> tests it.\<close>

definition is_ascii :: "string \<Rightarrow> bool" where
  "is_ascii s = list_all (\<lambda>c. \<not> digit7 c) s"

text \<open>
  Case-insensitive occurrence, stated without reference to the functions of the program:
  two characters are the same letter when they are equal or one is the capital of the
  other, and a keyword occurs in a corpus when the corpus splits into a prefix, a segment
  that agrees with the keyword letter by letter, and a suffix.
\<close>

definition capital_small :: "(char \<times> char) list" where
  "capital_small =
     [(CHR ''A'', CHR ''a''), (CHR ''B'', CHR ''b''), (CHR ''C'', CHR ''c''),
      (CHR ''D'', CHR ''d''), (CHR ''E'', CHR ''e''), (CHR ''F'', CHR ''f''),
      (CHR ''G'', CHR ''g''), (CHR ''H'', CHR ''h''), (CHR ''I'', CHR ''i''),
      (CHR ''J'', CHR ''j''), (CHR ''K'', CHR ''k''), (CHR ''L'', CHR ''l''),
      (CHR ''M'', CHR ''m''), (CHR ''N'', CHR ''n''), (CHR ''O'', CHR ''o''),
      (CHR ''P'', CHR ''p''), (CHR ''Q'', CHR ''q''), (CHR ''R'', CHR ''r''),
      (CHR ''S'', CHR ''s''), (CHR ''T'', CHR ''t''), (CHR ''U'', CHR ''u''),
      (CHR ''V'', CHR ''v''), (CHR ''W'', CHR ''w''), (CHR ''X'', CHR ''x''),
      (CHR ''Y'', CHR ''y''), (CHR ''Z'', CHR ''z'')]"

definition same_letter :: "char \<Rightarrow> char \<Rightarrow> bool" where
  "same_letter c d = (c = d \<or> (c, d) \<in> set capital_small \<or> (d, c) \<in> set capital_small)"

definition occurs_ci :: "string \<Rightarrow> string \<Rightarrow> bool" where
  "occurs_ci kw corpus = (\<exists>ps s ss. corpus = ps @ s @ ss \<and> list_all2 same_letter s kw)"

text \<open>
  For a corpus, the number of distinct keywords of each sector that occur in it, in
  declaration order.
\<close>

definition sector_scores :: "string \<Rightarrow> nat list" where
  "sector_scores corpus =
     map (\<lambda>(sec, keywords). card {kw \<in> set keywords. occurs_ci kw corpus}) sector_keywords"

text \<open>The counts as the sector loop computes them, for any taxonomy.\<close>

definition keyword_counts :: "(string \<times> string list) list \<Rightarrow> string \<Rightarrow> nat list" where
  "keyword_counts tbl text_lower =
     map (\<lambda>(sec, keywords). length (filter (\<lambda>kw. str_in kw text_lower) keywords)) tbl"

text \<open>The reasoning line of the emotion-recognition prohibition.\<close>

definition emotion_prohibition_msg :: string where
  "emotion_prohibition_msg =
     prohibited_mark @ '' PROHIBITED: Emotion recognition in workplace/education (Article 5.1f)''"

text \<open>A search environment in which the provider library is not installed.\<close>

definition offline_env :: search_env where
  "offline_env = \<lparr>SEARCH_AVAILABLE = False, DDGS = Inl ''ddgs not installed''\<rparr>"

text \<open>
  A provider that is reachable and answers the first query with two records that carry no
  \<^verbatim>\<open>href\<close> key, and one that answers every query with no record.
\<close>

definition no_href_results :: "provider_record list" where
  "no_href_results =
     [\<lparr>rec_title = Some ''First'', rec_body = Some ''one'', rec_href = None\<rparr>,
      \<lparr>rec_title = Some ''Second'', rec_body = Some ''two'', rec_href = None\<rparr>]"

definition no_href_env :: search_env where
  "no_href_env =
     \<lparr>SEARCH_AVAILABLE = True,
      DDGS = Inr (\<lambda>query max_results.
                    if query = ''Acme Bot AI system'' then Inr no_href_results else Inr [])\<rparr>"

definition empty_env :: search_env where
  "empty_env = \<lparr>SEARCH_AVAILABLE = True, DDGS = Inr (\<lambda>query max_results. Inr [])\<rparr>"

text \<open>The profile harvested, with search disabled, for an emotion detector used in exams.\<close>

definition exam_emotion_harvest :: AISystemProfile where
  "exam_emotion_harvest =
     harvest_from_description False offline_env ''Mood'' ''Acme''
       ''Emotion detection during an exam''"

text \<open>
  Profiles harvested, with search disabled, from four descriptions: one naming a military
  use and social scoring, a chatbot, a photo filter, and a system for hiring drivers.
\<close>

definition military_scoring_profile :: AISystemProfile where
  "military_scoring_profile =
     harvest_from_description False offline_env ''Rank'' ''Acme'' ''military social scoring''"

definition chatbot_profile :: AISystemProfile where
  "chatbot_profile =
     harvest_from_description False offline_env ''Bot'' ''Acme''
       ''A chatbot that answers customer questions''"

definition photo_profile :: AISystemProfile where
  "photo_profile =
     harvest_from_description False offline_env ''Pix'' ''Acme''
       ''Enhances photos with artistic filters for social media''"

definition hiring_drivers_profile :: AISystemProfile where
  "hiring_drivers_profile =
     harvest_from_description False offline_env ''Hire'' ''Acme'' ''hiring drivers''"

section \<open>Facts about strings\<close>

lemma startswith_iff: "startswith t k \<longleftrightarrow> (\<exists>ss. t = k @ ss)"
  by (induction t k rule: startswith.induct) auto

lemma str_in_iff: "str_in kw t \<longleftrightarrow> (\<exists>ps ss. t = ps @ kw @ ss)"
proof (induction t)
  case Nil
  then show ?case by auto
next
  case (Cons c cs)
  show ?case
  proof
    assume "str_in kw (c # cs)"
    then consider "startswith (c # cs) kw" | "str_in kw cs" by auto
    then show "\<exists>ps ss. c # cs = ps @ kw @ ss"
    proof cases
      case 1
      then obtain ss where "c # cs = kw @ ss" by (auto simp: startswith_iff)
      then have "c # cs = [] @ kw @ ss" by simp
      then show ?thesis by blast
    next
      case 2
      with Cons obtain ps ss where "cs = ps @ kw @ ss" by auto
      then have "c # cs = (c # ps) @ kw @ ss" by simp
      then show ?thesis by blast
    qed
  next
    assume "\<exists>ps ss. c # cs = ps @ kw @ ss"
    then obtain ps ss where eq: "c # cs = ps @ kw @ ss" by auto
    show "str_in kw (c # cs)"
    proof (cases ps)
      case Nil
      with eq have "startswith (c # cs) kw" by (auto simp: startswith_iff)
      then show ?thesis by simp
    next
      case (Cons p ps')
      with eq have "cs = ps' @ kw @ ss" by simp
      with Cons.IH have "str_in kw cs" by blast
      then show ?thesis by simp
    qed
  qed
qed

lemma lower_append: "lower (a @ b) = lower a @ lower b"
  by (simp add: lower_def)

text \<open>Lower-casing of the printable ASCII characters, one fact per character.\<close>

lemma lower_char_ascii:
  "lower_char (CHR 0x09) = CHR 0x09" "lower_char (CHR 0x0A) = CHR 0x0A"
  "lower_char (CHR 0x0D) = CHR 0x0D" "lower_char (CHR '' '') = CHR '' ''"
  "lower_char (CHR ''!'') = CHR ''!''" "lower_char (CHR 0x22) = CHR 0x22"
  "lower_char (CHR ''#'') = CHR ''#''" "lower_char (CHR ''$'') = CHR ''$''"
  "lower_char (CHR ''%'') = CHR ''%''" "lower_char (CHR ''&'') = CHR ''&''"
  "lower_char (CHR 0x27) = CHR 0x27" "lower_char (CHR ''('') = CHR ''(''"
  "lower_char (CHR '')'') = CHR '')''" "lower_char (CHR ''*'') = CHR ''*''"
  "lower_char (CHR ''+'') = CHR ''+''" "lower_char (CHR '','') = CHR '',''"
  "lower_char (CHR ''-'') = CHR ''-''" "lower_char (CHR ''.'') = CHR ''.''"
  "lower_char (CHR ''/'') = CHR ''/''" "lower_char (CHR ''0'') = CHR ''0''"
  "lower_char (CHR ''1'') = CHR ''1''" "lower_char (CHR ''2'') = CHR ''2''"
  "lower_char (CHR ''3'') = CHR ''3''" "lower_char (CHR ''4'') = CHR ''4''"
  "lower_char (CHR ''5'') = CHR ''5''" "lower_char (CHR ''6'') = CHR ''6''"
  "lower_char (CHR ''7'') = CHR ''7''" "lower_char (CHR ''8'') = CHR ''8''"
  "lower_char (CHR ''9'') = CHR ''9''" "lower_char (CHR '':'') = CHR '':''"
  "lower_char (CHR '';'') = CHR '';''" "lower_char (CHR ''<'') = CHR ''<''"
  "lower_char (CHR ''='') = CHR ''=''" "lower_char (CHR ''>'') = CHR ''>''"
  "lower_char (CHR ''?'') = CHR ''?''" "lower_char (CHR ''@'') = CHR ''@''"
  "lower_char (CHR ''A'') = CHR ''a''" "lower_char (CHR ''B'') = CHR ''b''"
  "lower_char (CHR ''C'') = CHR ''c''" "lower_char (CHR ''D'') = CHR ''d''"
  "lower_char (CHR ''E'') = CHR ''e''" "lower_char (CHR ''F'') = CHR ''f''"
  "lower_char (CHR ''G'') = CHR ''g''" "lower_char (CHR ''H'') = CHR ''h''"
  "lower_char (CHR ''I'') = CHR ''i''" "lower_char (CHR ''J'') = CHR ''j''"
  "lower_char (CHR ''K'') = CHR ''k''" "lower_char (CHR ''L'') = CHR ''l''"
  "lower_char (CHR ''M'') = CHR ''m''" "lower_char (CHR ''N'') = CHR ''n''"
  "lower_char (CHR ''O'') = CHR ''o''" "lower_char (CHR ''P'') = CHR ''p''"
  "lower_char (CHR ''Q'') = CHR ''q''" "lower_char (CHR ''R'') = CHR ''r''"
  "lower_char (CHR ''S'') = CHR ''s''" "lower_char (CHR ''T'') = CHR ''t''"
  "lower_char (CHR ''U'') = CHR ''u''" "lower_char (CHR ''V'') = CHR ''v''"
  "lower_char (CHR ''W'') = CHR ''w''" "lower_char (CHR ''X'') = CHR ''x''"
  "lower_char (CHR ''Y'') = CHR ''y''" "lower_char (CHR ''Z'') = CHR ''z''"
  "lower_char (CHR ''['') = CHR ''[''" "lower_char (CHR 0x5C) = CHR 0x5C"
  "lower_char (CHR '']'') = CHR '']''" "lower_char (CHR ''^'') = CHR ''^''"
  "lower_char (CHR ''_'') = CHR ''_''" "lower_char (CHR 0x60) = CHR 0x60"
  "lower_char (CHR ''a'') = CHR ''a''" "lower_char (CHR ''b'') = CHR ''b''"
  "lower_char (CHR ''c'') = CHR ''c''" "lower_char (CHR ''d'') = CHR ''d''"
  "lower_char (CHR ''e'') = CHR ''e''" "lower_char (CHR ''f'') = CHR ''f''"
  "lower_char (CHR ''g'') = CHR ''g''" "lower_char (CHR ''h'') = CHR ''h''"
  "lower_char (CHR ''i'') = CHR ''i''" "lower_char (CHR ''j'') = CHR ''j''"
  "lower_char (CHR ''k'') = CHR ''k''" "lower_char (CHR ''l'') = CHR ''l''"
  "lower_char (CHR ''m'') = CHR ''m''" "lower_char (CHR ''n'') = CHR ''n''"
  "lower_char (CHR ''o'') = CHR ''o''" "lower_char (CHR ''p'') = CHR ''p''"
  "lower_char (CHR ''q'') = CHR ''q''" "lower_char (CHR ''r'') = CHR ''r''"
  "lower_char (CHR ''s'') = CHR ''s''" "lower_char (CHR ''t'') = CHR ''t''"
  "lower_char (CHR ''u'') = CHR ''u''" "lower_char (CHR ''v'') = CHR ''v''"
  "lower_char (CHR ''w'') = CHR ''w''" "lower_char (CHR ''x'') = CHR ''x''"
  "lower_char (CHR ''y'') = CHR ''y''" "lower_char (CHR ''z'') = CHR ''z''"
  "lower_char (CHR ''{'') = CHR ''{''" "lower_char (CHR ''|'') = CHR ''|''"
  "lower_char (CHR ''}'') = CHR ''}''" "lower_char (CHR ''~'') = CHR ''~''"
  by (simp_all add: lower_char_def)

section \<open>The fields of a harvested profile\<close>

lemma harvest_inputs:
  "name (harvest_from_description en env nm co descr) = nm"
  "company (harvest_from_description en env nm co descr) = co"
  "description (harvest_from_description en env nm co descr) = descr"
  by (simp_all add: harvest_from_description_def Let_def split_beta)

lemma harvest_fields:
  "sector (harvest_from_description en env nm co descr)
     = an_sector (analyze_description
         (combined_info descr (fst (search_step en env nm co descr))) nm co)"
  "primary_purpose (harvest_from_description en env nm co descr)
     = an_primary_purpose (analyze_description
         (combined_info descr (fst (search_step en env nm co descr))) nm co)"
  "user_base (harvest_from_description en env nm co descr)
     = an_user_base (analyze_description
         (combined_info descr (fst (search_step en env nm co descr))) nm co)"
  "biometrics_involved (harvest_from_description en env nm co descr)
     = an_biometrics_involved (analyze_description
         (combined_info descr (fst (search_step en env nm co descr))) nm co)"
  "biometrics_purpose (harvest_from_description en env nm co descr)
     = an_biometrics_purpose (analyze_description
         (combined_info descr (fst (search_step en env nm co descr))) nm co)"
  "decision_making_role (harvest_from_description en env nm co descr)
     = an_decision_making_role (analyze_description
         (combined_info descr (fst (search_step en env nm co descr))) nm co)"
  "high_risk_context (harvest_from_description en env nm co descr)
     = an_high_risk_contexts (analyze_description
         (combined_info descr (fst (search_step en env nm co descr))) nm co)"
  "data_processed (harvest_from_description en env nm co descr)
     = an_data_processed (analyze_description
         (combined_info descr (fst (search_step en env nm co descr))) nm co)"
  "deployment_context (harvest_from_description en env nm co descr)
     = an_deployment_context (analyze_description
         (combined_info descr (fst (search_step en env nm co descr))) nm co)"
  by (simp_all add: harvest_from_description_def Let_def split_beta)

lemma analysis_fields:
  "an_sector (analyze_description t nm co)
     = fst (sector_loop sector_keywords (lower t) (''General'', 0))"
  "an_primary_purpose (analyze_description t nm co) = extract_primary_purpose t nm"
  "an_user_base (analyze_description t nm co) = first_hit user_bases (lower t) ''General public''"
  "an_biometrics_involved (analyze_description t nm co)
     = fst (biometric_loop biometric_indicators (lower t))"
  "an_biometrics_purpose (analyze_description t nm co)
     = snd (biometric_loop biometric_indicators (lower t))"
  "an_decision_making_role (analyze_description t nm co)
     = first_hit decision_indicators (lower t) ''Informational''"
  "an_high_risk_contexts (analyze_description t nm co) = all_hits risk_indicators (lower t) []"
  "an_data_processed (analyze_description t nm co) = all_hits data_indicators (lower t) []"
  "an_deployment_context (analyze_description t nm co)
     = first_hit deployment_contexts (lower t) ''General commercial use''"
  by (simp_all add: analyze_description_def Let_def split_beta)

section \<open>The stages of the rule chain\<close>

lemma check_exceptions_fst: "fst (check_exceptions s p) = fst (check_exceptions s' p)"
  by (simp add: check_exceptions_def Let_def)
lemma check_prohibited_fst: "fst (check_prohibited s p) = fst (check_prohibited s' p)"
  by (auto simp: check_prohibited_def Let_def)
lemma check_transparency_fst: "fst (check_transparency s p) = fst (check_transparency s' p)"
  by (simp add: check_transparency_def Let_def)

lemma check_exceptions_path:
  "self_decision_path (snd (check_exceptions s p))
     = self_decision_path s @ [''Article 2: Scope exceptions'']"
  by (simp add: check_exceptions_def Let_def path_append_def reasoning_append_def)
lemma check_prohibited_path:
  "self_decision_path (snd (check_prohibited s p))
     = self_decision_path s @ [''Article 5: Prohibited AI practices'']"
  by (simp add: check_prohibited_def Let_def path_append_def reasoning_append_def)
lemma check_transparency_path:
  "self_decision_path (snd (check_transparency s p))
     = self_decision_path s @ [''Article 50: Transparency requirements'']"
  by (simp add: check_transparency_def Let_def path_append_def reasoning_append_def
      recommendations_extend_def)

subsection \<open>The high-risk stage against its priority table\<close>

lemma add_recs_eq:
  "add_high_risk_recommendations k s =
     s\<lparr>self_recommendations := self_recommendations s @ general_recommendations
          @ (case map_of specific_recommendations k of Some extra \<Rightarrow> extra | None \<Rightarrow> [])\<rparr>"
  by (simp add: add_high_risk_recommendations_def Let_def recommendations_extend_def
      split: option.splits)

lemma extras_eval:
  "map_of specific_recommendations ''biometric'' = Some (category_extras Biometric)"
  "map_of specific_recommendations ''infrastructure'' = None"
  "map_of specific_recommendations ''safety'' = Some (category_extras SafetyVehicle)"
  "map_of specific_recommendations ''education'' = None"
  "map_of specific_recommendations ''employment'' = Some (category_extras Employment)"
  "map_of specific_recommendations ''essential_services'' = None"
  "map_of specific_recommendations ''law_enforcement'' = None"
  "map_of specific_recommendations ''border_control'' = Some (category_extras BorderControl)"
  "map_of specific_recommendations ''justice'' = None"
  by (simp_all add: specific_recommendations_def)

lemma hits:
  "(True, add_high_risk_recommendations ''biometric''
              (reasoning_append
                 (high_risk_mark @ '' HIGH-RISK: Biometric identification system (Annex III.1)'')
                 (path_append ''Article 6 & Annex III: High-risk systems'' s))) = hr_hit s Biometric"
  "(True, add_high_risk_recommendations ''infrastructure''
              (reasoning_append
                 (high_risk_mark @ '' HIGH-RISK: Critical infrastructure system (Annex III.2)'')
                 (path_append ''Article 6 & Annex III: High-risk systems'' s)))
    = hr_hit s CriticalInfrastructure"
  "(True, add_high_risk_recommendations ''safety''
              (reasoning_append ''System operates in safety-critical context''
                 (reasoning_append
                    (high_risk_mark
                       @ '' HIGH-RISK: Safety component in vehicle operation (Annex III.2)'')
                    (path_append ''Article 6 & Annex III: High-risk systems'' s))))
    = hr_hit s SafetyVehicle"
  "(True, add_high_risk_recommendations ''education''
              (reasoning_append
                 (high_risk_mark @ '' HIGH-RISK: Educational assessment system (Annex III.3)'')
                 (path_append ''Article 6 & Annex III: High-risk systems'' s)))
    = hr_hit s Education"
  "(True, add_high_risk_recommendations ''employment''
              (reasoning_append
                 (high_risk_mark @ '' HIGH-RISK: Employment decision system (Annex III.4)'')
                 (path_append ''Article 6 & Annex III: High-risk systems'' s)))
    = hr_hit s Employment"
  "(True, add_high_risk_recommendations ''essential_services''
              (reasoning_append
                 (high_risk_mark
                    @ '' HIGH-RISK: Essential services/creditworthiness (Annex III.5)'')
                 (path_append ''Article 6 & Annex III: High-risk systems'' s)))
    = hr_hit s EssentialServices"
  "(True, add_high_risk_recommendations ''law_enforcement''
              (reasoning_append
                 (high_risk_mark @ '' HIGH-RISK: Law enforcement application (Annex III.6)'')
                 (path_append ''Article 6 & Annex III: High-risk systems'' s)))
    = hr_hit s LawEnforcement"
  "(True, add_high_risk_recommendations ''border_control''
              (reasoning_append
                 (high_risk_mark @ '' HIGH-RISK: Border control system (Annex III.7)'')
                 (path_append ''Article 6 & Annex III: High-risk systems'' s)))
    = hr_hit s BorderControl"
  "(True, add_high_risk_recommendations ''justice''
              (reasoning_append
                 (high_risk_mark @ '' HIGH-RISK: Administration of justice (Annex III.8)'')
                 (path_append ''Article 6 & Annex III: High-risk systems'' s)))
    = hr_hit s Justice"
  unfolding hr_hit_def add_recs_eq extras_eval
  by (simp_all add: path_append_def reasoning_append_def)

lemma find9:
  "find P [c1, c2, c3, c4, c5, c6, c7, c8, c9] =
     (if P c1 then Some c1 else if P c2 then Some c2 else if P c3 then Some c3
      else if P c4 then Some c4 else if P c5 then Some c5 else if P c6 then Some c6
      else if P c7 then Some c7 else if P c8 then Some c8 else if P c9 then Some c9 else None)"
  by simp

lemma case_chain:
  "(case (if b1 then Some c1 else if b2 then Some c2 else if b3 then Some c3
      else if b4 then Some c4 else if b5 then Some c5 else if b6 then Some c6
      else if b7 then Some c7 else if b8 then Some c8 else if b9 then Some c9 else None) of
      None \<Rightarrow> n | Some c \<Rightarrow> f c)
   = (if b1 then f c1 else if b2 then f c2 else if b3 then f c3
      else if b4 then f c4 else if b5 then f c5 else if b6 then f c6
      else if b7 then f c7 else if b8 then f c8 else if b9 then f c9 else n)"
  by simp

lemma check_high_risk_find:
  "check_high_risk s p =
     (case find (\<lambda>c. category_applies c p) annex_priority of
        None \<Rightarrow> (False, path_append ''Article 6 & Annex III: High-risk systems'' s)
      | Some c \<Rightarrow> hr_hit s c)"
  unfolding check_high_risk_def annex_priority_def Let_def hits find9 case_chain
    category_applies.simps
  by (rule refl)


lemma check_high_risk_fst: "fst (check_high_risk s p) = fst (check_high_risk s' p)"
  by (simp add: check_high_risk_find hr_hit_def split: option.splits)

lemma check_high_risk_path:
  "self_decision_path (snd (check_high_risk s p))
     = self_decision_path s @ [''Article 6 & Annex III: High-risk systems'']"
  by (simp add: check_high_risk_find hr_hit_def path_append_def split: option.splits)

subsection \<open>The chain\<close>

lemma classify_unfold:
  "classify self p =
     (let s0 = self\<lparr>self_decision_path := [], self_reasoning := [], self_recommendations := []\<rparr>;
          s1 = snd (check_exceptions s0 p);
          s2 = snd (check_prohibited s1 p);
          s3 = snd (check_high_risk s2 p);
          s4 = snd (check_transparency s3 p)
      in if fst (check_exceptions sa p) then (create_result s1 EXCEPTION, s1)
         else if fst (check_prohibited sb p) then (create_result s2 PROHIBITED, s2)
         else if fst (check_high_risk sc p) then (create_result s3 HIGH_RISK, s3)
         else if fst (check_transparency sd p)
              then (create_result s4 TRANSPARENCY_REQUIREMENTS, s4)
         else (create_result s4 LOW_RISK, s4))"
proof -
  let ?s0 = "self\<lparr>self_decision_path := [], self_reasoning := [], self_recommendations := []\<rparr>"
  let ?s1 = "snd (check_exceptions ?s0 p)"
  let ?s2 = "snd (check_prohibited ?s1 p)"
  let ?s3 = "snd (check_high_risk ?s2 p)"
  have 1: "fst (check_exceptions ?s0 p) = fst (check_exceptions sa p)"
    by (rule check_exceptions_fst)
  have 2: "fst (check_prohibited ?s1 p) = fst (check_prohibited sb p)"
    by (rule check_prohibited_fst)
  have 3: "fst (check_high_risk ?s2 p) = fst (check_high_risk sc p)"
    by (rule check_high_risk_fst)
  have 4: "fst (check_transparency ?s3 p) = fst (check_transparency sd p)"
    by (rule check_transparency_fst)
  show ?thesis
    unfolding classify_def Let_def case_prod_beta 1 2 3 4 by (rule refl)
qed

lemma classify_level:
  "risk_level (fst (classify self p)) =
     (if fst (check_exceptions sa p) then EXCEPTION
      else if fst (check_prohibited sb p) then PROHIBITED
      else if fst (check_high_risk sc p) then HIGH_RISK
      else if fst (check_transparency sd p) then TRANSPARENCY_REQUIREMENTS
      else LOW_RISK)"
  by (simp add: classify_unfold [of self p sa sb sc sd] Let_def create_result_def)

lemma classify_path:
  "decision_path (fst (classify self p)) =
     take (if fst (check_exceptions sa p) then 1
           else if fst (check_prohibited sb p) then 2
           else if fst (check_high_risk sc p) then 3
           else 4) stage_labels"
  by (simp add: classify_unfold [of self p sa sb sc sd] Let_def create_result_def
      check_exceptions_path check_prohibited_path check_high_risk_path check_transparency_path
      stage_labels_def)

text \<open>
  C1 (as amended). For every profile \<open>classify\<close> evaluates the stages in the order
  Exceptions, Prohibited, High-Risk, Transparency and stops at the first whose predicate is
  true, Low-Risk if none is: the risk level is that of the first true predicate, and the
  decision path is the list of the labels of the stages tested, in order, so it has one to
  four entries. All four labels are present exactly when the first three predicates fail,
  that is when the result is Low-Risk or Additional Transparency Requirements. A profile
  meeting both an exception and a prohibited condition is classified Exception. The value
  of each stage predicate does not depend on the instance state.
\<close>

theorem classify_stage_order:
  "risk_level (fst (classify self p)) =
     (if fst (check_exceptions sa p) then EXCEPTION
      else if fst (check_prohibited sb p) then PROHIBITED
      else if fst (check_high_risk sc p) then HIGH_RISK
      else if fst (check_transparency sd p) then TRANSPARENCY_REQUIREMENTS
      else LOW_RISK)
   \<and> decision_path (fst (classify self p)) =
     take (if fst (check_exceptions sa p) then 1
           else if fst (check_prohibited sb p) then 2
           else if fst (check_high_risk sc p) then 3
           else 4) stage_labels
   \<and> 1 \<le> length (decision_path (fst (classify self p)))
   \<and> length (decision_path (fst (classify self p))) \<le> 4
   \<and> (decision_path (fst (classify self p)) = stage_labels \<longleftrightarrow>
        risk_level (fst (classify self p)) \<in> {TRANSPARENCY_REQUIREMENTS, LOW_RISK})
   \<and> (fst (check_exceptions sa p) \<and> fst (check_prohibited sb p) \<longrightarrow>
        risk_level (fst (classify self p)) = EXCEPTION)"
  unfolding classify_level [of self p sa sb sc sd] classify_path [of self p sa sb sc]
  by (simp add: stage_labels_def)

lemma military_scoring_text:
  "description military_scoring_profile = ''military social scoring''"
  "lower ''military social scoring'' = ''military social scoring''"
  by (simp_all add: military_scoring_profile_def harvest_inputs lower_def lower_char_ascii)

lemma military_exception: "fst (check_exceptions s military_scoring_profile)"
  by (simp add: check_exceptions_def Let_def any_in_def military_scoring_text)

lemma military_prohibited: "fst (check_prohibited s military_scoring_profile)"
  by (simp add: check_prohibited_def Let_def any_in_def military_scoring_text)

text \<open>An instance: a description naming both a military use and social scoring.\<close>

theorem classify_stage_order_witness:
  "fst (check_exceptions init_agent military_scoring_profile)
   \<and> fst (check_prohibited init_agent military_scoring_profile)
   \<and> risk_level (fst (classify init_agent military_scoring_profile)) = EXCEPTION
   \<and> decision_path (fst (classify init_agent military_scoring_profile))
       = [''Article 2: Scope exceptions'']"
  using classify_stage_order [of init_agent military_scoring_profile init_agent init_agent
      init_agent init_agent]
    military_exception [of init_agent] military_prohibited [of init_agent]
  by (simp add: stage_labels_def)

lemma chatbot_text:
  "description chatbot_profile = ''A chatbot that answers customer questions''"
  "lower ''A chatbot that answers customer questions'' = ''a chatbot that answers customer questions''"
  by (simp_all add: chatbot_profile_def harvest_inputs lower_def lower_char_ascii)

lemma chatbot_corpus:
  "lower (combined_info ''A chatbot that answers customer questions''
            (fst (search_step False offline_env ''Bot'' ''Acme'' ''A chatbot that answers customer questions'')))
     = ''a chatbot that answers customer questions\<newline>\<newline>additional context from web search:\<newline>''"
  by (simp add: combined_info_def search_step_def lower_def lower_char_ascii)

lemma chatbot_scans:
  "biometric_loop biometric_indicators
     ''a chatbot that answers customer questions\<newline>\<newline>additional context from web search:\<newline>''
     = (False, None)"
  "all_hits risk_indicators
     ''a chatbot that answers customer questions\<newline>\<newline>additional context from web search:\<newline>'' []
     = []"
  by code_simp+

lemma chatbot_fields:
  "biometrics_involved chatbot_profile = False"
  "biometrics_purpose chatbot_profile = None"
  "high_risk_context chatbot_profile = []"
  by (simp_all add: chatbot_profile_def harvest_fields analysis_fields chatbot_corpus chatbot_scans)

lemma chatbot_stages:
  "\<not> fst (check_exceptions s chatbot_profile)"
  "\<not> fst (check_prohibited s chatbot_profile)"
  "\<not> fst (check_high_risk s chatbot_profile)"
  "fst (check_transparency s chatbot_profile)"
  by (simp_all add: check_exceptions_def check_prohibited_def check_high_risk_find
      check_transparency_def annex_priority_def Let_def any_in_def chatbot_text
      chatbot_fields)

text \<open>
  C1 as stated fails: for the chatbot profile all four labels are in the decision path
  although the result is not Low-Risk.
\<close>

theorem four_labels_without_low_risk:
  "decision_path (fst (classify init_agent chatbot_profile)) = stage_labels
   \<and> risk_level (fst (classify init_agent chatbot_profile)) = TRANSPARENCY_REQUIREMENTS
   \<and> risk_level (fst (classify init_agent chatbot_profile)) \<noteq> LOW_RISK"
  by (simp add: classify_level [of _ _ init_agent init_agent init_agent init_agent]
      classify_path [of _ _ init_agent init_agent init_agent] chatbot_stages
      stage_labels_def)

section \<open>Priority within the high-risk stage\<close>

lemma check_exceptions_False:
  "\<not> fst (check_exceptions s p) \<Longrightarrow>
     snd (check_exceptions s p) = path_append ''Article 2: Scope exceptions'' s"
  by (auto simp: check_exceptions_def Let_def split: if_splits)

lemma check_prohibited_False:
  "\<not> fst (check_prohibited s p) \<Longrightarrow>
     snd (check_prohibited s p) = path_append ''Article 5: Prohibited AI practices'' s"
  by (auto simp: check_prohibited_def Let_def split: if_splits)

lemma category_reasoning_disjoint:
  "c' \<noteq> c \<Longrightarrow> set (category_reasoning c') \<inter> set (category_reasoning c) = {}"
  by (cases c; cases c'; simp add: high_risk_mark_def)

lemma category_extras_not_general:
  "set (category_extras c') \<inter> set general_recommendations = {}"
  by (cases c'; simp add: general_recommendations_def)

lemma category_extras_apart:
  "c' \<noteq> c \<Longrightarrow> set (category_extras c') \<inter> set (category_extras c) = {}"
  by (cases c; cases c'; simp)

lemma category_extras_disjoint:
  "c' \<noteq> c \<Longrightarrow>
     set (category_extras c') \<inter> set (general_recommendations @ category_extras c) = {}"
  using category_extras_not_general [of c'] category_extras_apart [of c' c]
  by (simp add: Int_Un_distrib)

lemma category_reasoning_nonempty: "category_reasoning c \<noteq> []"
  by (cases c) simp_all

lemma classify_high_risk:
  assumes f: "find (\<lambda>c. category_applies c p) annex_priority = Some c"
    and e: "\<not> fst (check_exceptions sa p)" and pr: "\<not> fst (check_prohibited sb p)"
  shows "risk_level (fst (classify self p)) = HIGH_RISK"
    and "reasoning (fst (classify self p)) = category_reasoning c"
    and "recommendations (fst (classify self p)) = general_recommendations @ category_extras c"
    and "self_reasoning (snd (classify self p)) = category_reasoning c"
proof -
  define s0 where
    "s0 = self\<lparr>self_decision_path := [], self_reasoning := [], self_recommendations := []\<rparr>"
  define s1 where "s1 = snd (check_exceptions s0 p)"
  define s2 where "s2 = snd (check_prohibited s1 p)"
  define s3 where "s3 = snd (check_high_risk s2 p)"
  have e0: "\<not> fst (check_exceptions s0 p)"
    using e check_exceptions_fst [of s0 p sa] by simp
  have p1: "\<not> fst (check_prohibited s1 p)"
    using pr check_prohibited_fst [of s1 p sb] by simp
  have s1e: "s1 = path_append ''Article 2: Scope exceptions'' s0"
    unfolding s1_def using e0 by (rule check_exceptions_False)
  have s2e: "s2 = path_append ''Article 5: Prohibited AI practices'' s1"
    unfolding s2_def using p1 by (rule check_prohibited_False)
  have r2: "self_reasoning s2 = []" and c2: "self_recommendations s2 = []"
    by (simp_all add: s2e s1e s0_def path_append_def)
  have h: "check_high_risk s2 p = hr_hit s2 c"
    by (simp add: check_high_risk_find f)
  have h3: "fst (check_high_risk s2 p)" by (simp add: h hr_hit_def)
  have cl: "classify self p = (create_result s3 HIGH_RISK, s3)"
    using classify_unfold [of self p s0 s1 s2 s3] e0 p1 h3
    unfolding Let_def s3_def s2_def s1_def s0_def by simp
  have r3: "self_reasoning s3 = category_reasoning c"
    and c3: "self_recommendations s3 = general_recommendations @ category_extras c"
    by (simp_all add: s3_def h hr_hit_def r2 c2)
  show "risk_level (fst (classify self p)) = HIGH_RISK"
    by (simp add: cl create_result_def)
  show "reasoning (fst (classify self p)) = category_reasoning c"
    by (simp add: cl create_result_def r3 category_reasoning_nonempty)
  show "recommendations (fst (classify self p)) = general_recommendations @ category_extras c"
    by (simp add: cl create_result_def c3 general_recommendations_def)
  show "self_reasoning (snd (classify self p)) = category_reasoning c"
    by (simp add: cl r3)
qed

text \<open>
  C2. The high-risk stage checks the nine Annex III categories in the order biometric,
  critical infrastructure, safety-critical/vehicle operation, educational assessment,
  employment decision, essential services/financial decision, law enforcement, border
  control, justice administration, and stops at the first that applies: the stage returns
  what the first applicable category of the priority table records, and nothing if none
  applies. When the stage is reached and \<open>c\<close> is that first category, the result's
  reasoning is exactly the lines of \<open>c\<close> and its recommendations are the general baseline
  followed by the extras of \<open>c\<close>; no reasoning line and no extra of any other category,
  applicable or not, appears in the result.
\<close>

theorem high_risk_first_match:
  "check_high_risk s p =
     (case find (\<lambda>c. category_applies c p) annex_priority of
        None \<Rightarrow> (False, path_append ''Article 6 & Annex III: High-risk systems'' s)
      | Some c \<Rightarrow>
          (True, s\<lparr>self_decision_path :=
                      self_decision_path s @ [''Article 6 & Annex III: High-risk systems''],
                    self_reasoning := self_reasoning s @ category_reasoning c,
                    self_recommendations :=
                      self_recommendations s @ general_recommendations @ category_extras c\<rparr>))
   \<and> (\<forall>c. find (\<lambda>c. category_applies c p) annex_priority = Some c
            \<and> \<not> fst (check_exceptions sa p) \<and> \<not> fst (check_prohibited sb p) \<longrightarrow>
          risk_level (fst (classify self p)) = HIGH_RISK
          \<and> reasoning (fst (classify self p)) = category_reasoning c
          \<and> recommendations (fst (classify self p))
              = general_recommendations @ category_extras c
          \<and> (\<forall>c'. c' \<noteq> c \<longrightarrow>
                set (category_reasoning c') \<inter> set (reasoning (fst (classify self p))) = {}
                \<and> set (category_extras c')
                    \<inter> set (recommendations (fst (classify self p))) = {}))"
proof (intro conjI allI impI)
  show "check_high_risk s p =
     (case find (\<lambda>c. category_applies c p) annex_priority of
        None \<Rightarrow> (False, path_append ''Article 6 & Annex III: High-risk systems'' s)
      | Some c \<Rightarrow>
          (True, s\<lparr>self_decision_path :=
                      self_decision_path s @ [''Article 6 & Annex III: High-risk systems''],
                    self_reasoning := self_reasoning s @ category_reasoning c,
                    self_recommendations :=
                      self_recommendations s @ general_recommendations @ category_extras c\<rparr>))"
    using check_high_risk_find [of s p] by (simp only: hr_hit_def)
next
  fix c
  assume a: "find (\<lambda>c. category_applies c p) annex_priority = Some c
            \<and> \<not> fst (check_exceptions sa p) \<and> \<not> fst (check_prohibited sb p)"
  then have f: "find (\<lambda>c. category_applies c p) annex_priority = Some c"
    and e: "\<not> fst (check_exceptions sa p)" and pr: "\<not> fst (check_prohibited sb p)"
    by simp_all
  note r = classify_high_risk [OF f e pr, of self]
  show "risk_level (fst (classify self p)) = HIGH_RISK" by (rule r(1))
  show "reasoning (fst (classify self p)) = category_reasoning c" by (rule r(2))
  show "recommendations (fst (classify self p)) = general_recommendations @ category_extras c"
    by (rule r(3))
  fix c' :: annex_category
  assume ne: "c' \<noteq> c"
  show "set (category_reasoning c') \<inter> set (reasoning (fst (classify self p))) = {}"
    unfolding r(2) using ne by (rule category_reasoning_disjoint)
  show "set (category_extras c') \<inter> set (recommendations (fst (classify self p))) = {}"
    unfolding r(3) using ne by (rule category_extras_disjoint)
qed

lemma hiring_drivers_text:
  "description hiring_drivers_profile = ''hiring drivers''"
  "lower ''hiring drivers'' = ''hiring drivers''"
  by (simp_all add: hiring_drivers_profile_def harvest_inputs lower_def lower_char_ascii)

lemma hiring_drivers_corpus:
  "lower (combined_info ''hiring drivers''
            (fst (search_step False offline_env ''Hire'' ''Acme'' ''hiring drivers'')))
     = ''hiring drivers\<newline>\<newline>additional context from web search:\<newline>''"
  by (simp add: combined_info_def search_step_def lower_def lower_char_ascii)

lemma hiring_drivers_scans:
  "biometric_loop biometric_indicators
     ''hiring drivers\<newline>\<newline>additional context from web search:\<newline>''
     = (False, None)"
  "all_hits risk_indicators
     ''hiring drivers\<newline>\<newline>additional context from web search:\<newline>'' []
     = [''Vehicle operation'', ''Employment decision'']"
  by code_simp+

lemma hiring_drivers_fields:
  "biometrics_involved hiring_drivers_profile = False"
  "biometrics_purpose hiring_drivers_profile = None"
  "high_risk_context hiring_drivers_profile = [''Vehicle operation'', ''Employment decision'']"
  by (simp_all add: hiring_drivers_profile_def harvest_fields analysis_fields
      hiring_drivers_corpus hiring_drivers_scans)

lemma hiring_drivers_find:
  "find (\<lambda>c. category_applies c hiring_drivers_profile) annex_priority = Some SafetyVehicle"
  "category_applies Employment hiring_drivers_profile"
  by (simp_all add: annex_priority_def hiring_drivers_fields)

lemma hiring_drivers_stages:
  "\<not> fst (check_exceptions s hiring_drivers_profile)"
  "\<not> fst (check_prohibited s hiring_drivers_profile)"
  by (simp_all add: check_exceptions_def check_prohibited_def Let_def any_in_def
      hiring_drivers_text hiring_drivers_fields)

text \<open>
  An instance: a profile in both the vehicle-operation and the employment-decision
  contexts gets the safety reasoning only.
\<close>

theorem high_risk_first_match_witness:
  "find (\<lambda>c. category_applies c hiring_drivers_profile) annex_priority = Some SafetyVehicle
   \<and> category_applies Employment hiring_drivers_profile
   \<and> \<not> fst (check_exceptions init_agent hiring_drivers_profile)
   \<and> \<not> fst (check_prohibited init_agent hiring_drivers_profile)
   \<and> risk_level (fst (classify init_agent hiring_drivers_profile)) = HIGH_RISK
   \<and> reasoning (fst (classify init_agent hiring_drivers_profile))
       = category_reasoning SafetyVehicle
   \<and> set (category_reasoning Employment)
       \<inter> set (reasoning (fst (classify init_agent hiring_drivers_profile))) = {}
   \<and> set (category_extras Employment)
       \<inter> set (recommendations (fst (classify init_agent hiring_drivers_profile))) = {}"
proof -
  have ne: "Employment \<noteq> SafetyVehicle" by simp
  from high_risk_first_match [of init_agent hiring_drivers_profile init_agent init_agent
      init_agent]
  have "\<forall>c. find (\<lambda>c. category_applies c hiring_drivers_profile) annex_priority = Some c
            \<and> \<not> fst (check_exceptions init_agent hiring_drivers_profile)
            \<and> \<not> fst (check_prohibited init_agent hiring_drivers_profile) \<longrightarrow>
          risk_level (fst (classify init_agent hiring_drivers_profile)) = HIGH_RISK
          \<and> reasoning (fst (classify init_agent hiring_drivers_profile)) = category_reasoning c
          \<and> recommendations (fst (classify init_agent hiring_drivers_profile))
              = general_recommendations @ category_extras c
          \<and> (\<forall>c'. c' \<noteq> c \<longrightarrow>
                set (category_reasoning c')
                  \<inter> set (reasoning (fst (classify init_agent hiring_drivers_profile))) = {}
                \<and> set (category_extras c')
                    \<inter> set (recommendations (fst (classify init_agent hiring_drivers_profile)))
                    = {})"
    by (rule conjunct2)
  with hiring_drivers_find hiring_drivers_stages [of init_agent] ne
  show ?thesis by blast
qed


section \<open>Reentrancy of the engine\<close>

lemma reset_eq:
  "(s1::RiskClassificationAgent)
     \<lparr>self_decision_path := [], self_reasoning := [], self_recommendations := []\<rparr>
   = s2\<lparr>self_decision_path := [], self_reasoning := [], self_recommendations := []\<rparr>"
  by simp

lemma classify_state_indep: "classify s1 p = classify (s2::RiskClassificationAgent) p"
  by (simp only: classify_def reset_eq [of s1 s2])

text \<open>
  C3. The accumulators are reset at the start of every \<open>classify\<close> call, so the result for
  a profile is the same whatever the state of the instance: calling \<open>classify\<close> on a profile,
  then on any sequence of other profiles, then on the first profile again, on the same
  instance, gives the same result both times; so does an immediate repetition. The lists
  of an earlier result are not touched by a later call, which binds fresh lists.
\<close>

theorem classify_reentrant:
  "fst (classify (foldl (\<lambda>s q. snd (classify s q)) (snd (classify self p)) qs) p)
     = fst (classify self p)
   \<and> fst (classify (snd (classify self p)) p) = fst (classify self p)
   \<and> fst (classify s1 p) = fst (classify s2 p)"
  using classify_state_indep by metis

section \<open>Result assembly\<close>

lemma classify_is_create_result:
  "\<exists>lvl. fst (classify self p) = create_result (snd (classify self p)) lvl"
  by (auto simp: classify_def Let_def split: prod.splits)

lemma create_result_confidence:
  "confidence (create_result s lvl) =
     (if length (self_reasoning s) \<ge> 3 then ''High''
      else if length (self_reasoning s) = 2 then ''Medium'' else ''Low'')"
  by (auto simp: create_result_def)

lemma create_result_placeholder:
  "self_reasoning s = [] \<Longrightarrow>
     reasoning (create_result s lvl) = [''No specific risks identified'']
     \<and> confidence (create_result s lvl) = ''Low''"
  by (simp add: create_result_def)

lemma create_result_reasoning:
  "self_reasoning s \<noteq> [] \<Longrightarrow> reasoning (create_result s lvl) = self_reasoning s"
  by (simp add: create_result_def)

text \<open>
  C4. In every \<open>classify\<close> call the confidence is computed from the length of the reasoning
  accumulated by the stages (the list the instance holds when the call returns): High from
  three entries on, Medium for exactly two, Low otherwise. The placeholder is substituted
  only in the result, after counting: when nothing was accumulated the result's reasoning is
  the single placeholder and the confidence is Low; otherwise the result carries the
  accumulated list itself.
\<close>

theorem confidence_before_placeholder:
  "confidence (fst (classify self p)) =
     (if length (self_reasoning (snd (classify self p))) \<ge> 3 then ''High''
      else if length (self_reasoning (snd (classify self p))) = 2 then ''Medium''
      else ''Low'')
   \<and> (self_reasoning (snd (classify self p)) = [] \<longrightarrow>
        reasoning (fst (classify self p)) = [''No specific risks identified'']
        \<and> confidence (fst (classify self p)) = ''Low'')
   \<and> (self_reasoning (snd (classify self p)) \<noteq> [] \<longrightarrow>
        reasoning (fst (classify self p)) = self_reasoning (snd (classify self p)))"
proof -
  obtain lvl where r: "fst (classify self p) = create_result (snd (classify self p)) lvl"
    using classify_is_create_result by blast
  show ?thesis
    unfolding r
    using create_result_confidence create_result_placeholder create_result_reasoning
    by presburger
qed

lemma photo_text:
  "description photo_profile = ''Enhances photos with artistic filters for social media''"
  "lower ''Enhances photos with artistic filters for social media'' = ''enhances photos with artistic filters for social media''"
  by (simp_all add: photo_profile_def harvest_inputs lower_def lower_char_ascii)

lemma photo_corpus:
  "lower (combined_info ''Enhances photos with artistic filters for social media''
            (fst (search_step False offline_env ''Pix'' ''Acme'' ''Enhances photos with artistic filters for social media'')))
     = ''enhances photos with artistic filters for social media\<newline>\<newline>additional context from web search:\<newline>''"
  by (simp add: combined_info_def search_step_def lower_def lower_char_ascii)

lemma photo_scans:
  "biometric_loop biometric_indicators
     ''enhances photos with artistic filters for social media\<newline>\<newline>additional context from web search:\<newline>''
     = (False, None)"
  "all_hits risk_indicators
     ''enhances photos with artistic filters for social media\<newline>\<newline>additional context from web search:\<newline>'' []
     = []"
  by code_simp+

lemma photo_fields:
  "biometrics_involved photo_profile = False"
  "biometrics_purpose photo_profile = None"
  "high_risk_context photo_profile = []"
  by (simp_all add: photo_profile_def harvest_fields analysis_fields photo_corpus photo_scans)

lemma photo_stages:
  "\<not> fst (check_exceptions s photo_profile)"
  "\<not> fst (check_prohibited s photo_profile)"
  "\<not> fst (check_high_risk s photo_profile)"
  "\<not> fst (check_transparency s photo_profile)"
  by (simp_all add: check_exceptions_def check_prohibited_def check_high_risk_find
      check_transparency_def annex_priority_def Let_def any_in_def photo_text photo_fields)

lemma check_transparency_False:
  "\<not> fst (check_transparency s p) \<Longrightarrow>
     snd (check_transparency s p) = path_append ''Article 50: Transparency requirements'' s"
  by (auto simp: check_transparency_def Let_def split: if_splits)

lemma check_high_risk_False:
  "\<not> fst (check_high_risk s p) \<Longrightarrow>
     snd (check_high_risk s p) = path_append ''Article 6 & Annex III: High-risk systems'' s"
  by (simp add: check_high_risk_find hr_hit_def split: option.splits)

lemma photo_no_reasoning: "self_reasoning (snd (classify init_agent photo_profile)) = []"
  by (simp add: classify_unfold [of _ _ init_agent init_agent init_agent init_agent] Let_def
      photo_stages check_exceptions_False check_prohibited_False check_high_risk_False
      check_transparency_False path_append_def)

lemma hiring_drivers_reasoning:
  "self_reasoning (snd (classify init_agent hiring_drivers_profile))
     = category_reasoning SafetyVehicle"
  by (rule classify_high_risk(4) [OF hiring_drivers_find(1) hiring_drivers_stages])

text \<open>
  Instances: a profile for which nothing is accumulated, and one with two accumulated
  reasoning lines.
\<close>

theorem confidence_before_placeholder_witness:
  "self_reasoning (snd (classify init_agent photo_profile)) = []
   \<and> reasoning (fst (classify init_agent photo_profile)) = [''No specific risks identified'']
   \<and> confidence (fst (classify init_agent photo_profile)) = ''Low''
   \<and> self_reasoning (snd (classify init_agent hiring_drivers_profile)) \<noteq> []
   \<and> length (self_reasoning (snd (classify init_agent hiring_drivers_profile))) = 2
   \<and> reasoning (fst (classify init_agent hiring_drivers_profile))
       = self_reasoning (snd (classify init_agent hiring_drivers_profile))
   \<and> confidence (fst (classify init_agent hiring_drivers_profile)) = ''Medium''"
  using confidence_before_placeholder [of init_agent photo_profile]
    confidence_before_placeholder [of init_agent hiring_drivers_profile]
    photo_no_reasoning hiring_drivers_reasoning
  by simp

section \<open>The search step and the analysed text\<close>

text \<open>
  C10. The search loop tests \<^verbatim>\<open>result.get('href')\<close> against the collected sources but
  appends \<^verbatim>\<open>result.get('href', '')\<close>: a record without the key is never found among the
  sources. On a provider answer of two records without a url both are collected, and the
  returned source list holds the empty string twice.
\<close>

theorem dedup_misses_missing_url:
  "snd (search_for_system no_href_env ''Bot'' ''Acme'' ''A chatbot'') = ['''', '''']
   \<and> \<not> distinct (snd (search_for_system no_href_env ''Bot'' ''Acme'' ''A chatbot''))
   \<and> search_sources (harvest_from_description True no_href_env ''Bot'' ''Acme'' ''A chatbot'')
       = ['''', '''']"
  by (simp add: search_for_system_def no_href_env_def search_queries_def no_href_results_def
      href_not_in_def get_or_def harvest_from_description_def search_step_def Let_def
      split_beta)

lemma collect_results_distinct:
  "distinct sources \<Longrightarrow> \<forall>r\<in>set results. rec_href r \<noteq> None \<Longrightarrow>
     distinct (snd (collect_results results (all_results, sources)))"
  by (induction results arbitrary: all_results sources)
     (auto simp: href_not_in_def get_or_def split: option.splits)

lemma search_step_empty:
  "\<not> en \<or> \<not> SEARCH_AVAILABLE env \<or> isl (DDGS env) \<Longrightarrow> search_step en env nm co descr = ([], [])"
  by (auto simp: search_step_def search_for_system_def isl_def split: sum.splits)

lemma run_queries_nothing:
  "\<forall>q. ddgs q 3 = Inr [] \<or> isl (ddgs q 3) \<Longrightarrow> run_queries ddgs qs acc = acc"
proof (induction qs arbitrary: acc)
  case Nil
  show ?case by simp
next
  case (Cons q qs)
  from Cons.prems have "ddgs q 3 = Inr [] \<or> isl (ddgs q 3)" by blast
  then show ?case using Cons.IH [OF Cons.prems, of acc] by (auto simp: isl_def)
qed

lemma search_step_nothing:
  "DDGS env = Inr ddgs \<Longrightarrow> \<forall>q. ddgs q 3 = Inr [] \<or> isl (ddgs q 3) \<Longrightarrow>
     search_step en env nm co descr = ([], [])"
  by (simp add: search_step_def search_for_system_def run_queries_nothing
      format_search_results_def)

text \<open>
  C7 (as amended). The text handed to the analysis is the description, then the fixed
  separator with the header line, then the supplementary search text, and nothing else:
  every analysed field of the harvested profile is the corresponding scan of that text.
  The supplementary part is empty when search is disabled, when the provider library is
  unavailable, when opening the provider fails, and when every query fails or returns no
  record.
\<close>

theorem corpus_is_description_header_supplement:
  "combined_info descr (fst (search_step en env nm co descr))
     = descr @ ''\<newline>\<newline>Additional Context from Web Search:\<newline>''
         @ fst (search_step en env nm co descr)
   \<and> sector (harvest_from_description en env nm co descr)
       = fst (sector_loop sector_keywords
           (lower (descr @ context_header @ fst (search_step en env nm co descr)))
           (''General'', 0))
   \<and> primary_purpose (harvest_from_description en env nm co descr)
       = extract_primary_purpose
           (descr @ context_header @ fst (search_step en env nm co descr)) nm
   \<and> user_base (harvest_from_description en env nm co descr)
       = first_hit user_bases
           (lower (descr @ context_header @ fst (search_step en env nm co descr)))
           ''General public''
   \<and> (biometrics_involved (harvest_from_description en env nm co descr),
       biometrics_purpose (harvest_from_description en env nm co descr))
       = biometric_loop biometric_indicators
           (lower (descr @ context_header @ fst (search_step en env nm co descr)))
   \<and> decision_making_role (harvest_from_description en env nm co descr)
       = first_hit decision_indicators
           (lower (descr @ context_header @ fst (search_step en env nm co descr)))
           ''Informational''
   \<and> high_risk_context (harvest_from_description en env nm co descr)
       = all_hits risk_indicators
           (lower (descr @ context_header @ fst (search_step en env nm co descr))) []
   \<and> data_processed (harvest_from_description en env nm co descr)
       = all_hits data_indicators
           (lower (descr @ context_header @ fst (search_step en env nm co descr))) []
   \<and> deployment_context (harvest_from_description en env nm co descr)
       = first_hit deployment_contexts
           (lower (descr @ context_header @ fst (search_step en env nm co descr)))
           ''General commercial use''
   \<and> (\<not> en \<or> \<not> SEARCH_AVAILABLE env \<or> isl (DDGS env) \<longrightarrow>
        fst (search_step en env nm co descr) = [])
   \<and> (\<forall>ddgs. DDGS env = Inr ddgs \<and> (\<forall>q. ddgs q 3 = Inr [] \<or> isl (ddgs q 3)) \<longrightarrow>
        fst (search_step en env nm co descr) = [])"
  using search_step_empty [of en env nm co descr] search_step_nothing [of env _ en nm co descr]
  by (simp add: harvest_fields analysis_fields combined_info_def context_header_def)

text \<open>
  Instances: search disabled, the library unavailable, and a provider that returns nothing.
\<close>

theorem corpus_is_description_header_supplement_witness:
  "fst (search_step False offline_env ''Bot'' ''Acme'' ''A chatbot'') = []
   \<and> \<not> SEARCH_AVAILABLE offline_env
   \<and> isl (DDGS offline_env)
   \<and> fst (search_step True offline_env ''Bot'' ''Acme'' ''A chatbot'') = []
   \<and> DDGS empty_env = Inr (\<lambda>query max_results. Inr [])
   \<and> fst (search_step True empty_env ''Bot'' ''Acme'' ''A chatbot'') = []
   \<and> combined_info ''A chatbot'' (fst (search_step True empty_env ''Bot'' ''Acme'' ''A chatbot''))
       = ''A chatbot\<newline>\<newline>Additional Context from Web Search:\<newline>''"
  using corpus_is_description_header_supplement [of "''A chatbot''" False offline_env "''Bot''" "''Acme''"]
    corpus_is_description_header_supplement [of "''A chatbot''" True offline_env "''Bot''" "''Acme''"]
    corpus_is_description_header_supplement [of "''A chatbot''" True empty_env "''Bot''" "''Acme''"]
  by (simp add: offline_env_def empty_env_def combined_info_def)

text \<open>
  C7 as stated fails: with search disabled the supplementary text is empty, and the analysed
  text is not the description alone.
\<close>

theorem corpus_is_not_plain_concatenation:
  "combined_info ''A chatbot'' (fst (search_step False offline_env ''Bot'' ''Acme'' ''A chatbot''))
     \<noteq> ''A chatbot'' @ fst (search_step False offline_env ''Bot'' ''Acme'' ''A chatbot'')
   \<and> fst (search_step False offline_env ''Bot'' ''Acme'' ''A chatbot'') = []"
  by (simp add: combined_info_def search_step_def)

section \<open>Consequences of the header line and of the label sets\<close>

lemma first_hit_in_labels:
  "(l, kws) \<in> set tbl \<Longrightarrow> any_in kws t \<Longrightarrow> first_hit tbl t d \<in> fst ` set tbl"
  by (induction tbl t d rule: first_hit.induct) auto

lemma header_lower:
  "lower context_header = ''\<newline>\<newline>additional context from web search:\<newline>''"
  by (simp add: context_header_def lower_def lower_char_ascii)

lemma web_in_corpus: "str_in ''web'' (lower (descr @ context_header @ supp))"
proof -
  have "lower (descr @ context_header @ supp)
          = (lower descr @ ''\<newline>\<newline>additional context from '') @ ''web''
              @ ('' search:\<newline>'' @ lower supp)"
    by (simp add: lower_append header_lower)
  then show ?thesis unfolding str_in_iff by blast
qed

lemma header_in_corpus:
  "str_in ''Additional Context from Web Search:'' (descr @ context_header @ supp)"
proof -
  have "descr @ context_header @ supp
          = (descr @ ''\<newline>\<newline>'') @ ''Additional Context from Web Search:''
              @ (''\<newline>'' @ supp)"
    by (simp add: context_header_def)
  then show ?thesis unfolding str_in_iff by blast
qed

lemma online_service_entry:
  "(''Online service'', [''online'', ''web'', ''app'', ''digital'', ''cloud''])
     \<in> set deployment_contexts"
  by (simp add: deployment_contexts_def)

lemma default_not_a_label: "''General commercial use'' \<notin> fst ` set deployment_contexts"
  by (simp add: deployment_contexts_def)

text \<open>
  C8. Whatever the name, company and description, and whether search is enabled or not, the
  analysed text contains the header line "Additional Context from Web Search:"; its lower
  case form contains "web", a keyword of the "Online service" deployment context, so some
  deployment-context label matches and the harvested profile's deployment context is a
  label of the taxonomy, never the default "General commercial use".
\<close>

theorem deployment_context_never_default:
  "str_in ''Additional Context from Web Search:''
     (combined_info descr (fst (search_step en env nm co descr)))
   \<and> any_in [''online'', ''web'', ''app'', ''digital'', ''cloud'']
       (lower (combined_info descr (fst (search_step en env nm co descr))))
   \<and> deployment_context (harvest_from_description en env nm co descr)
       \<in> fst ` set deployment_contexts
   \<and> deployment_context (harvest_from_description en env nm co descr)
       \<noteq> ''General commercial use''"
proof -
  let ?supp = "fst (search_step en env nm co descr)"
  have c: "combined_info descr ?supp = descr @ context_header @ ?supp"
    by (simp add: combined_info_def context_header_def)
  have w: "any_in [''online'', ''web'', ''app'', ''digital'', ''cloud'']
             (lower (descr @ context_header @ ?supp))"
    using web_in_corpus [of descr ?supp] by (simp add: any_in_def)
  have d: "deployment_context (harvest_from_description en env nm co descr)
             = first_hit deployment_contexts (lower (descr @ context_header @ ?supp))
                 ''General commercial use''"
    by (simp add: harvest_fields analysis_fields c)
  have m: "first_hit deployment_contexts (lower (descr @ context_header @ ?supp))
             ''General commercial use'' \<in> fst ` set deployment_contexts"
    using online_service_entry w by (rule first_hit_in_labels)
  show ?thesis
    unfolding c d using header_in_corpus [of descr ?supp] w m default_not_a_label by metis
qed

lemma all_hits_labels: "set (all_hits tbl t acc) \<subseteq> set acc \<union> fst ` set tbl"
  by (induction tbl t acc rule: all_hits.induct) auto

lemma workplace_not_a_risk_label: "''Workplace'' \<notin> fst ` set risk_indicators"
  by (simp add: risk_indicators_def)

lemma emotion_msg_not_category: "emotion_prohibition_msg \<notin> set (category_reasoning c)"
  by (cases c; simp add: emotion_prohibition_msg_def prohibited_mark_def high_risk_mark_def)

lemma emotion_msg_exceptions:
  "emotion_prohibition_msg \<in> set (self_reasoning (snd (check_exceptions s p))) \<Longrightarrow>
     emotion_prohibition_msg \<in> set (self_reasoning s)"
  by (auto simp: check_exceptions_def Let_def reasoning_append_def path_append_def
      emotion_prohibition_msg_def prohibited_mark_def split: if_splits)

lemma emotion_msg_high_risk:
  "emotion_prohibition_msg \<in> set (self_reasoning (snd (check_high_risk s p))) \<Longrightarrow>
     emotion_prohibition_msg \<in> set (self_reasoning s)"
  using emotion_msg_not_category
  by (auto simp: check_high_risk_find hr_hit_def path_append_def split: option.splits)

lemma emotion_msg_transparency:
  "emotion_prohibition_msg \<in> set (self_reasoning (snd (check_transparency s p))) \<Longrightarrow>
     emotion_prohibition_msg \<in> set (self_reasoning s)"
  by (auto simp: check_transparency_def Let_def reasoning_append_def path_append_def
      recommendations_extend_def emotion_prohibition_msg_def prohibited_mark_def
      transparency_mark_def split: if_splits)

lemma emotion_msg_prohibited:
  "emotion_prohibition_msg \<in> set (self_reasoning (snd (check_prohibited s p))) \<Longrightarrow>
   emotion_prohibition_msg \<notin> set (self_reasoning s) \<Longrightarrow>
     biometrics_purpose p = Some ''emotion recognition''
     \<and> (''Workplace'' \<in> set (high_risk_context p)
         \<or> ''Educational assessment'' \<in> set (high_risk_context p))"
  by (auto simp: check_prohibited_def Let_def reasoning_append_def path_append_def
      emotion_prohibition_msg_def split: if_splits)

lemma emotion_msg_origin:
  assumes m: "emotion_prohibition_msg \<in> set (self_reasoning (snd (classify self p)))"
  shows "biometrics_purpose p = Some ''emotion recognition''
         \<and> (''Workplace'' \<in> set (high_risk_context p)
             \<or> ''Educational assessment'' \<in> set (high_risk_context p))"
proof -
  define s0 where
    "s0 = self\<lparr>self_decision_path := [], self_reasoning := [], self_recommendations := []\<rparr>"
  define s1 where "s1 = snd (check_exceptions s0 p)"
  define s2 where "s2 = snd (check_prohibited s1 p)"
  define s3 where "s3 = snd (check_high_risk s2 p)"
  define s4 where "s4 = snd (check_transparency s3 p)"
  have n1: "emotion_prohibition_msg \<notin> set (self_reasoning s1)"
    using emotion_msg_exceptions [of s0 p] by (auto simp: s1_def s0_def)
  have fin: "snd (classify self p) \<in> {s1, s2, s3, s4}"
    unfolding classify_unfold [of self p s0 s0 s0 s0] Let_def s4_def s3_def s2_def s1_def s0_def
    by simp
  have 43: "emotion_prohibition_msg \<in> set (self_reasoning s4) \<Longrightarrow>
            emotion_prohibition_msg \<in> set (self_reasoning s3)"
    unfolding s4_def by (rule emotion_msg_transparency)
  have 32: "emotion_prohibition_msg \<in> set (self_reasoning s3) \<Longrightarrow>
            emotion_prohibition_msg \<in> set (self_reasoning s2)"
    unfolding s3_def by (rule emotion_msg_high_risk)
  have in2: "emotion_prohibition_msg \<in> set (self_reasoning s2)"
    using m fin n1 43 32 by auto
  show ?thesis
    using emotion_msg_prohibited [of s1 p] in2 n1 unfolding s2_def by blast
qed

lemma classify_reasoning_accumulated:
  "m \<in> set (reasoning (fst (classify self p))) \<Longrightarrow> m \<noteq> ''No specific risks identified'' \<Longrightarrow>
     m \<in> set (self_reasoning (snd (classify self p)))"
  using classify_is_create_result [of self p]
  by (auto simp: create_result_def split: if_splits)

lemma emotion_msg_not_placeholder: "emotion_prohibition_msg \<noteq> ''No specific risks identified''"
  by (simp add: emotion_prohibition_msg_def prohibited_mark_def)

text \<open>
  C9. The high-risk contexts of a harvested profile are among the eleven risk-indicator
  labels, and "Workplace" is not one of them. So on a harvested profile the Article 5.1f
  reasoning can be in a classification result only when the biometrics purpose is
  "emotion recognition" and "Educational assessment" is among the high-risk contexts.
\<close>

theorem workplace_disjunct_unreachable:
  "set (high_risk_context (harvest_from_description en env nm co descr))
     \<subseteq> fst ` set risk_indicators
   \<and> length risk_indicators = 11
   \<and> ''Workplace'' \<notin> fst ` set risk_indicators
   \<and> ''Workplace'' \<notin> set (high_risk_context (harvest_from_description en env nm co descr))
   \<and> (emotion_prohibition_msg
         \<in> set (reasoning (fst (classify self (harvest_from_description en env nm co descr))))
       \<longrightarrow> biometrics_purpose (harvest_from_description en env nm co descr)
             = Some ''emotion recognition''
           \<and> ''Educational assessment''
               \<in> set (high_risk_context (harvest_from_description en env nm co descr)))"
proof -
  let ?p = "harvest_from_description en env nm co descr"
  have sub: "set (high_risk_context ?p) \<subseteq> fst ` set risk_indicators"
    using all_hits_labels [of risk_indicators _ "[]"]
    by (simp add: harvest_fields analysis_fields)
  have nw: "''Workplace'' \<notin> set (high_risk_context ?p)"
    using sub workplace_not_a_risk_label by blast
  have len: "length risk_indicators = 11" by (simp add: risk_indicators_def)
  have imp: "biometrics_purpose ?p = Some ''emotion recognition''
             \<and> ''Educational assessment'' \<in> set (high_risk_context ?p)"
    if "emotion_prohibition_msg \<in> set (reasoning (fst (classify self ?p)))"
    using emotion_msg_origin [of self ?p]
      classify_reasoning_accumulated [OF that emotion_msg_not_placeholder] nw
    by blast
  show ?thesis using sub nw len imp workplace_not_a_risk_label by blast
qed

lemma exam_corpus:
  "lower (combined_info ''Emotion detection during an exam''
            (fst (search_step False offline_env ''Mood'' ''Acme''
                    ''Emotion detection during an exam'')))
     = ''emotion detection during an exam\<newline>\<newline>additional context from web search:\<newline>''"
  "lower ''Emotion detection during an exam'' = ''emotion detection during an exam''"
  by (simp_all add: combined_info_def search_step_def lower_def lower_char_ascii)

lemma exam_scans:
  "biometric_loop biometric_indicators
     ''emotion detection during an exam\<newline>\<newline>additional context from web search:\<newline>''
     = (True, Some ''emotion recognition'')"
  "all_hits risk_indicators
     ''emotion detection during an exam\<newline>\<newline>additional context from web search:\<newline>'' []
     = [''Educational assessment'']"
  by code_simp+

lemma exam_fields:
  "description exam_emotion_harvest = ''Emotion detection during an exam''"
  "biometrics_involved exam_emotion_harvest = True"
  "biometrics_purpose exam_emotion_harvest = Some ''emotion recognition''"
  "high_risk_context exam_emotion_harvest = [''Educational assessment'']"
  unfolding exam_emotion_harvest_def
  by (simp_all add: harvest_inputs harvest_fields analysis_fields exam_corpus exam_scans)

lemma exam_not_exception: "\<not> fst (check_exceptions s exam_emotion_harvest)"
  by (simp add: check_exceptions_def Let_def any_in_def exam_fields exam_corpus)

lemma exam_prohibited:
  "check_prohibited s exam_emotion_harvest
     = (True, reasoning_append emotion_prohibition_msg
                (path_append ''Article 5: Prohibited AI practices'' s))"
  by (simp add: check_prohibited_def Let_def any_in_def exam_fields exam_corpus
      emotion_prohibition_msg_def)

lemma exam_classified:
  "reasoning (fst (classify init_agent exam_emotion_harvest)) = [emotion_prohibition_msg]"
  by (simp add: classify_unfold [of _ _ init_agent init_agent init_agent init_agent] Let_def
      exam_not_exception exam_prohibited check_exceptions_False create_result_def
      reasoning_append_def path_append_def)

text \<open>
  An instance: an emotion detector used in exams is prohibited under Article 5.1f.
\<close>

theorem workplace_disjunct_unreachable_witness:
  "emotion_prohibition_msg \<in> set (reasoning (fst (classify init_agent exam_emotion_harvest)))
   \<and> biometrics_purpose exam_emotion_harvest = Some ''emotion recognition''
   \<and> ''Educational assessment'' \<in> set (high_risk_context exam_emotion_harvest)
   \<and> ''Workplace'' \<notin> set (high_risk_context exam_emotion_harvest)"
  using workplace_disjunct_unreachable [of False offline_env "''Mood''" "''Acme''"
      "''Emotion detection during an exam''" init_agent]
    exam_classified
  unfolding exam_emotion_harvest_def [symmetric]
  by simp

section \<open>Accumulation and the sector choice\<close>

text \<open>
  The lower-casing of the program and the letter table of \<^const>\<open>same_letter\<close> agree: for a
  keyword without capitals, to occur in the lower-cased corpus is to occur in the corpus
  letter case apart.
\<close>

lemma lower_char_table:
  "lower_char c = (case map_of capital_small c of Some d \<Rightarrow> d | None \<Rightarrow> c)"
  by (simp add: lower_char_def capital_small_def)

lemma capital_small_distinct: "distinct (map fst capital_small)"
  by (simp add: capital_small_def)

lemma capital_small_irrefl: "(d, d) \<notin> set capital_small"
  by (auto simp: capital_small_def)

lemma lower_char_fixed:
  assumes "lower_char d = d"
  shows "d \<notin> fst ` set capital_small"
proof
  assume "d \<in> fst ` set capital_small"
  then obtain y where y: "map_of capital_small d = Some y"
    by (cases "map_of capital_small d") (auto simp: map_of_eq_None_iff)
  then have "(d, y) \<in> set capital_small" by (rule map_of_SomeD)
  moreover from y assms have "y = d" by (simp add: lower_char_table)
  ultimately show False using capital_small_irrefl by simp
qed

lemma lower_char_eq_iff:
  assumes "lower_char d = d"
  shows "lower_char c = d \<longleftrightarrow> same_letter c d"
proof -
  have nd: "d \<notin> fst ` set capital_small" using assms by (rule lower_char_fixed)
  then have ndc: "(d, c) \<notin> set capital_small" by force
  show ?thesis
  proof (cases "map_of capital_small c")
    case None
    then have "c \<notin> fst ` set capital_small" by (simp add: map_of_eq_None_iff)
    then have "(c, d) \<notin> set capital_small" by force
    then show ?thesis using None ndc by (simp add: lower_char_table same_letter_def)
  next
    case (Some y)
    then have m: "(c, y) \<in> set capital_small" by (rule map_of_SomeD)
    then have "c \<in> fst ` set capital_small" by force
    with nd have ne: "c \<noteq> d" by blast
    have "(c, d) \<in> set capital_small \<longleftrightarrow> y = d"
    proof
      assume "(c, d) \<in> set capital_small"
      then have "map_of capital_small c = Some d"
        using capital_small_distinct by simp
      with Some show "y = d" by simp
    next
      assume "y = d" with m show "(c, d) \<in> set capital_small" by simp
    qed
    then show ?thesis using Some ne ndc by (simp add: lower_char_table same_letter_def)
  qed
qed

lemma lower_eq_iff:
  assumes "lower kw = kw"
  shows "lower s = kw \<longleftrightarrow> list_all2 same_letter s kw"
  using assms
proof (induction s arbitrary: kw)
  case Nil
  show ?case by (auto simp: lower_def)
next
  case (Cons c cs)
  show ?case
  proof (cases kw)
    case Nil
    then show ?thesis by (simp add: lower_def)
  next
    case (Cons d ds)
    from Cons.prems Cons have d: "lower_char d = d" and ds: "lower ds = ds"
      by (simp_all add: lower_def)
    show ?thesis
      using Cons.IH [OF ds] lower_char_eq_iff [OF d, of c]
      by (simp add: Cons lower_def)
  qed
qed

lemma str_in_lower_iff:
  assumes "lower kw = kw"
  shows "str_in kw (lower corpus) \<longleftrightarrow> occurs_ci kw corpus"
proof
  assume "str_in kw (lower corpus)"
  then obtain ps ss where "map lower_char corpus = ps @ (kw @ ss)"
    unfolding str_in_iff lower_def by blast
  then obtain a vs where 1: "corpus = a @ vs" and "kw @ ss = map lower_char vs"
    unfolding map_eq_append_conv by blast
  then obtain b c where 2: "vs = b @ c" and 3: "kw = map lower_char b"
    unfolding append_eq_map_conv by blast
  from 3 have "lower b = kw" by (simp add: lower_def)
  then have "list_all2 same_letter b kw" using lower_eq_iff [OF assms] by simp
  with 1 2 show "occurs_ci kw corpus" unfolding occurs_ci_def by blast
next
  assume "occurs_ci kw corpus"
  then obtain ps s ss where c: "corpus = ps @ s @ ss" and "list_all2 same_letter s kw"
    unfolding occurs_ci_def by blast
  then have "lower s = kw" using lower_eq_iff [OF assms] by simp
  with c have "lower corpus = lower ps @ kw @ lower ss"
    by (simp add: lower_append)
  then show "str_in kw (lower corpus)" unfolding str_in_iff by blast
qed

lemma all_hits_filter:
  "all_hits tbl t acc = acc @ map fst (filter (\<lambda>(label, keywords). any_in keywords t) tbl)"
  by (induction tbl t acc rule: all_hits.induct) auto

lemma keywords_lower_case:
  "list_all (\<lambda>(label, keywords). list_all (\<lambda>kw. lower kw = kw) keywords) risk_indicators"
  "list_all (\<lambda>(label, keywords). list_all (\<lambda>kw. lower kw = kw) keywords) data_indicators"
  "list_all (\<lambda>(label, keywords). list_all (\<lambda>kw. lower kw = kw) keywords) sector_keywords"
  by (simp_all add: risk_indicators_def data_indicators_def sector_keywords_def
      lower_def lower_char_ascii)

lemma hits_case_insensitive:
  assumes "list_all (\<lambda>(label, keywords). list_all (\<lambda>kw. lower kw = kw) keywords) tbl"
  shows "filter (\<lambda>(label, keywords). any_in keywords (lower corpus)) tbl
           = filter (\<lambda>(label, keywords). \<exists>kw\<in>set keywords. occurs_ci kw corpus) tbl"
proof (rule filter_cong [OF refl])
  fix x assume x: "x \<in> set tbl"
  obtain l kws where xe: "x = (l, kws)" by (cases x)
  from assms x xe have "\<forall>kw\<in>set kws. lower kw = kw"
    by (auto simp: list_all_iff)
  then show "(case x of (label, keywords) \<Rightarrow> any_in keywords (lower corpus))
             = (case x of (label, keywords) \<Rightarrow> \<exists>kw\<in>set keywords. occurs_ci kw corpus)"
    by (simp add: xe any_in_def list_ex_iff str_in_lower_iff)
qed

lemma taxonomy_labels:
  "length risk_indicators = 11" "distinct (map fst risk_indicators)"
  "length data_indicators = 9" "distinct (map fst data_indicators)"
  by (simp_all add: risk_indicators_def data_indicators_def)

text \<open>
  C6. For every ASCII corpus the high-risk contexts and the data types of the analysis are
  the labels of their taxonomy that have at least one keyword occurring in the corpus as a
  case-insensitive substring, every such label and no other, in declaration order; the
  harvested profile carries these lists. They have no duplicates and hold only labels of
  the eleven-label and nine-label taxonomies. Occurrence is \<^const>\<open>occurs_ci\<close>: the corpus
  splits into a prefix, a segment equal to the keyword up to the case of its letters, and
  a suffix.
\<close>

theorem accumulate_all_hits:
  "is_ascii corpus \<Longrightarrow>
   an_high_risk_contexts (analyze_description corpus nm co)
     = map fst (filter (\<lambda>(label, keywords). \<exists>kw\<in>set keywords. occurs_ci kw corpus)
                  risk_indicators)
   \<and> an_data_processed (analyze_description corpus nm co)
       = map fst (filter (\<lambda>(label, keywords). \<exists>kw\<in>set keywords. occurs_ci kw corpus)
                    data_indicators)
   \<and> high_risk_context (harvest_from_description en env nm co descr)
       = an_high_risk_contexts (analyze_description
           (combined_info descr (fst (search_step en env nm co descr))) nm co)
   \<and> data_processed (harvest_from_description en env nm co descr)
       = an_data_processed (analyze_description
           (combined_info descr (fst (search_step en env nm co descr))) nm co)
   \<and> distinct (an_high_risk_contexts (analyze_description corpus nm co))
   \<and> distinct (an_data_processed (analyze_description corpus nm co))
   \<and> set (an_high_risk_contexts (analyze_description corpus nm co))
       \<subseteq> fst ` set risk_indicators
   \<and> set (an_data_processed (analyze_description corpus nm co))
       \<subseteq> fst ` set data_indicators
   \<and> length risk_indicators = 11 \<and> distinct (map fst risk_indicators)
   \<and> length data_indicators = 9 \<and> distinct (map fst data_indicators)"
proof -
  have r: "an_high_risk_contexts (analyze_description corpus nm co)
     = map fst (filter (\<lambda>(label, keywords). \<exists>kw\<in>set keywords. occurs_ci kw corpus)
                  risk_indicators)"
    by (simp add: analysis_fields all_hits_filter
        hits_case_insensitive [OF keywords_lower_case(1)])
  have d: "an_data_processed (analyze_description corpus nm co)
     = map fst (filter (\<lambda>(label, keywords). \<exists>kw\<in>set keywords. occurs_ci kw corpus)
                  data_indicators)"
    by (simp add: analysis_fields all_hits_filter
        hits_case_insensitive [OF keywords_lower_case(2)])
  have dr: "distinct (an_high_risk_contexts (analyze_description corpus nm co))"
    unfolding r using taxonomy_labels(2) by (rule distinct_map_filter)
  have dd: "distinct (an_data_processed (analyze_description corpus nm co))"
    unfolding d using taxonomy_labels(4) by (rule distinct_map_filter)
  have sr: "set (an_high_risk_contexts (analyze_description corpus nm co))
              \<subseteq> fst ` set risk_indicators"
    unfolding r by auto
  have sd: "set (an_data_processed (analyze_description corpus nm co))
              \<subseteq> fst ` set data_indicators"
    unfolding d by auto
  show ?thesis
    using r d dr dd sr sd taxonomy_labels harvest_fields(7,8) [of en env nm co descr]
    by (intro conjI)
qed

lemma police_car_lower: "lower ''POLICE Car gps'' = ''police car gps''"
  by (simp add: lower_def lower_char_ascii)

lemma police_car_hits:
  "all_hits risk_indicators ''police car gps'' [] = [''Vehicle operation'', ''Law enforcement'']"
  "all_hits data_indicators ''police car gps'' [] = [''Location data'']"
  by code_simp+

lemma police_occurs: "occurs_ci ''police'' ''POLICE Car gps''"
proof -
  have "''POLICE Car gps'' = '''' @ ''POLICE'' @ '' Car gps''" by simp
  moreover have "list_all2 same_letter ''POLICE'' ''police''"
    by (simp add: same_letter_def capital_small_def)
  ultimately show ?thesis unfolding occurs_ci_def by blast
qed

text \<open>
  Instance: in "POLICE Car gps" the keyword "police" occurs in capitals, "car" with a
  capital initial and "gps" as written; the contexts are those of vehicles and of law
  enforcement and the only data type is location data.
\<close>

theorem accumulate_all_hits_witness:
  "is_ascii ''POLICE Car gps''
   \<and> occurs_ci ''police'' ''POLICE Car gps''
   \<and> an_high_risk_contexts (analyze_description ''POLICE Car gps'' ''Bot'' ''Acme'')
       = [''Vehicle operation'', ''Law enforcement'']
   \<and> map fst (filter (\<lambda>(label, keywords). \<exists>kw\<in>set keywords. occurs_ci kw ''POLICE Car gps'')
                risk_indicators)
       = [''Vehicle operation'', ''Law enforcement'']
   \<and> an_data_processed (analyze_description ''POLICE Car gps'' ''Bot'' ''Acme'')
       = [''Location data'']
   \<and> map fst (filter (\<lambda>(label, keywords). \<exists>kw\<in>set keywords. occurs_ci kw ''POLICE Car gps'')
                data_indicators)
       = [''Location data'']"
proof -
  have a: "is_ascii ''POLICE Car gps''" by (simp add: is_ascii_def)
  note t = accumulate_all_hits [OF a, of "''Bot''" "''Acme''" False offline_env "''x''"]
  have r: "an_high_risk_contexts (analyze_description ''POLICE Car gps'' ''Bot'' ''Acme'')
       = [''Vehicle operation'', ''Law enforcement'']"
    by (simp add: analysis_fields police_car_lower police_car_hits)
  have d: "an_data_processed (analyze_description ''POLICE Car gps'' ''Bot'' ''Acme'')
       = [''Location data'']"
    by (simp add: analysis_fields police_car_lower police_car_hits)
  from t r have r': "map fst (filter (\<lambda>(label, keywords). \<exists>kw\<in>set keywords. occurs_ci kw ''POLICE Car gps'')
                risk_indicators) = [''Vehicle operation'', ''Law enforcement'']"
    by (simp only:)
  from t d have d': "map fst (filter (\<lambda>(label, keywords). \<exists>kw\<in>set keywords. occurs_ci kw ''POLICE Car gps'')
                data_indicators) = [''Location data'']"
    by (simp only:)
  show ?thesis using a police_occurs r r' d d' by (intro conjI)
qed

lemma sector_loop_spec:
  "if \<forall>n\<in>set (keyword_counts tbl t). n \<le> c then sector_loop tbl t (s, c) = (s, c)
         else \<exists>i<length tbl.
                sector_loop tbl t (s, c) = (title (fst (tbl ! i)), keyword_counts tbl t ! i)
                \<and> c < keyword_counts tbl t ! i
                \<and> (\<forall>n\<in>set (take i (keyword_counts tbl t)). n < keyword_counts tbl t ! i)
                \<and> (\<forall>n\<in>set (keyword_counts tbl t). n \<le> keyword_counts tbl t ! i)"
proof (induction tbl arbitrary: s c)
  case Nil
  show ?case by (simp add: keyword_counts_def)
next
  case (Cons x rest)
  obtain sec kws where x: "x = (sec, kws)" by (cases x)
  define m where "m = length (filter (\<lambda>kw. str_in kw t) kws)"
  have sc_cons: "keyword_counts (x # rest) t = m # keyword_counts rest t"
    by (simp add: keyword_counts_def x m_def)
  have fx: "fst x = sec" by (simp add: x)
  show ?case
  proof (cases "m > c")
    case True
    have step: "sector_loop (x # rest) t (s, c) = sector_loop rest t (title sec, m)"
      using True by (simp add: x m_def Let_def)
    show ?thesis
    proof (cases "\<forall>n\<in>set (keyword_counts rest t). n \<le> m")
      case all: True
      with Cons.IH [of m "title sec"]
      have "sector_loop rest t (title sec, m) = (title sec, m)" by simp
      then have "sector_loop (x # rest) t (s, c) = (title (fst ((x # rest) ! 0)), keyword_counts (x # rest) t ! 0)
                 \<and> c < keyword_counts (x # rest) t ! 0
                 \<and> (\<forall>n\<in>set (take 0 (keyword_counts (x # rest) t)). n < keyword_counts (x # rest) t ! 0)
                 \<and> (\<forall>n\<in>set (keyword_counts (x # rest) t). n \<le> keyword_counts (x # rest) t ! 0)"
        using True all by (simp add: step sc_cons fx)
      then have ex: "\<exists>i<length (x # rest).
                sector_loop (x # rest) t (s, c) = (title (fst ((x # rest) ! i)), keyword_counts (x # rest) t ! i)
                \<and> c < keyword_counts (x # rest) t ! i
                \<and> (\<forall>n\<in>set (take i (keyword_counts (x # rest) t)). n < keyword_counts (x # rest) t ! i)
                \<and> (\<forall>n\<in>set (keyword_counts (x # rest) t). n \<le> keyword_counts (x # rest) t ! i)"
        by (intro exI [of _ 0]) simp
      have neg: "\<not> (\<forall>n\<in>set (keyword_counts (x # rest) t). n \<le> c)"
        using True by (simp add: sc_cons)
      show ?thesis using ex by (simp only: neg if_False)
    next
      case False
      with Cons.IH [of m "title sec"]
      obtain i where i: "i < length rest"
        and r: "sector_loop rest t (title sec, m) = (title (fst (rest ! i)), keyword_counts rest t ! i)"
        and g: "m < keyword_counts rest t ! i"
        and f: "\<forall>n\<in>set (take i (keyword_counts rest t)). n < keyword_counts rest t ! i"
        and a: "\<forall>n\<in>set (keyword_counts rest t). n \<le> keyword_counts rest t ! i"
        by auto
      have "Suc i < length (x # rest)
            \<and> sector_loop (x # rest) t (s, c)
                = (title (fst ((x # rest) ! Suc i)), keyword_counts (x # rest) t ! Suc i)
            \<and> c < keyword_counts (x # rest) t ! Suc i
            \<and> (\<forall>n\<in>set (take (Suc i) (keyword_counts (x # rest) t)). n < keyword_counts (x # rest) t ! Suc i)
            \<and> (\<forall>n\<in>set (keyword_counts (x # rest) t). n \<le> keyword_counts (x # rest) t ! Suc i)"
        using i r g f a True by (auto simp: step sc_cons)
      then have ex: "\<exists>i<length (x # rest).
                sector_loop (x # rest) t (s, c) = (title (fst ((x # rest) ! i)), keyword_counts (x # rest) t ! i)
                \<and> c < keyword_counts (x # rest) t ! i
                \<and> (\<forall>n\<in>set (take i (keyword_counts (x # rest) t)). n < keyword_counts (x # rest) t ! i)
                \<and> (\<forall>n\<in>set (keyword_counts (x # rest) t). n \<le> keyword_counts (x # rest) t ! i)"
        by (intro exI [of _ "Suc i"])
      have neg: "\<not> (\<forall>n\<in>set (keyword_counts (x # rest) t). n \<le> c)"
        using True by (simp add: sc_cons)
      show ?thesis using ex by (simp only: neg if_False)
    qed
  next
    case le: False
    have step: "sector_loop (x # rest) t (s, c) = sector_loop rest t (s, c)"
      using le by (simp add: x m_def Let_def)
    show ?thesis
    proof (cases "\<forall>n\<in>set (keyword_counts rest t). n \<le> c")
      case True
      with Cons.IH [of c s] have "sector_loop rest t (s, c) = (s, c)" by simp
      moreover have "\<forall>n\<in>set (keyword_counts (x # rest) t). n \<le> c"
        using True le by (simp add: sc_cons)
      ultimately show ?thesis by (simp add: step)
    next
      case False
      with Cons.IH [of c s]
      obtain i where i: "i < length rest"
        and r: "sector_loop rest t (s, c) = (title (fst (rest ! i)), keyword_counts rest t ! i)"
        and g: "c < keyword_counts rest t ! i"
        and f: "\<forall>n\<in>set (take i (keyword_counts rest t)). n < keyword_counts rest t ! i"
        and a: "\<forall>n\<in>set (keyword_counts rest t). n \<le> keyword_counts rest t ! i"
        by auto
      have "Suc i < length (x # rest)
            \<and> sector_loop (x # rest) t (s, c)
                = (title (fst ((x # rest) ! Suc i)), keyword_counts (x # rest) t ! Suc i)
            \<and> c < keyword_counts (x # rest) t ! Suc i
            \<and> (\<forall>n\<in>set (take (Suc i) (keyword_counts (x # rest) t)). n < keyword_counts (x # rest) t ! Suc i)
            \<and> (\<forall>n\<in>set (keyword_counts (x # rest) t). n \<le> keyword_counts (x # rest) t ! Suc i)"
        using i r g f a le by (auto simp: step sc_cons)
      then have ex: "\<exists>i<length (x # rest).
                sector_loop (x # rest) t (s, c) = (title (fst ((x # rest) ! i)), keyword_counts (x # rest) t ! i)
                \<and> c < keyword_counts (x # rest) t ! i
                \<and> (\<forall>n\<in>set (take i (keyword_counts (x # rest) t)). n < keyword_counts (x # rest) t ! i)
                \<and> (\<forall>n\<in>set (keyword_counts (x # rest) t). n \<le> keyword_counts (x # rest) t ! i)"
        by (intro exI [of _ "Suc i"])
      have neg: "\<not> (\<forall>n\<in>set (keyword_counts (x # rest) t). n \<le> c)"
        using False by (simp add: sc_cons)
      show ?thesis using ex by (simp only: neg if_False)
    qed
  qed
qed

lemma first_maximum_unique:
  fixes sc :: "nat list"
  assumes "i < length sc" "j < length sc"
    and "\<forall>n\<in>set (take i sc). n < sc ! i" "\<forall>n\<in>set sc. n \<le> sc ! i"
    and "\<forall>n\<in>set (take j sc). n < sc ! j" "\<forall>n\<in>set sc. n \<le> sc ! j"
  shows "i = j"
proof (rule ccontr)
  assume "i \<noteq> j"
  then consider "i < j" | "j < i" by linarith
  then show False
  proof cases
    case 1
    then have "i < length (take j sc)" using assms(2) by simp
    then have "take j sc ! i \<in> set (take j sc)" by (rule nth_mem)
    then have "sc ! i \<in> set (take j sc)" using 1 by simp
    then have "sc ! i < sc ! j" using assms(5) by blast
    moreover have "sc ! j \<le> sc ! i" using assms(2,4) by simp
    ultimately show False by simp
  next
    case 2
    then have "j < length (take i sc)" using assms(1) by simp
    then have "take i sc ! j \<in> set (take i sc)" by (rule nth_mem)
    then have "sc ! j \<in> set (take i sc)" using 2 by simp
    then have "sc ! j < sc ! i" using assms(3) by blast
    moreover have "sc ! i \<le> sc ! j" using assms(1,6) by simp
    ultimately show False by simp
  qed
qed

lemma sector_keywords_distinct:
  "list_all (\<lambda>(sec, keywords). distinct keywords) sector_keywords"
  by (simp add: sector_keywords_def)

lemma occurring_count:
  assumes low: "\<forall>kw\<in>set kws. lower kw = kw" and dist: "distinct kws"
  shows "card {kw \<in> set kws. occurs_ci kw t} = length (filter (\<lambda>kw. str_in kw (lower t)) kws)"
proof -
  have e: "{kw \<in> set kws. occurs_ci kw t} = set (filter (\<lambda>kw. str_in kw (lower t)) kws)"
    using low by (auto simp: str_in_lower_iff)
  have "distinct (filter (\<lambda>kw. str_in kw (lower t)) kws)"
    using dist by simp
  then have "card (set (filter (\<lambda>kw. str_in kw (lower t)) kws))
               = length (filter (\<lambda>kw. str_in kw (lower t)) kws)"
    by (rule distinct_card)
  then show ?thesis by (simp only: e)
qed

lemma sector_scores_counts: "sector_scores t = keyword_counts sector_keywords (lower t)"
proof -
  have "\<forall>x\<in>set sector_keywords. distinct (snd x) \<and> (\<forall>kw\<in>set (snd x). lower kw = kw)"
    using sector_keywords_distinct keywords_lower_case(3) by (auto simp: list_all_iff)
  then show ?thesis
    unfolding sector_scores_def keyword_counts_def
    by (intro map_cong refl) (auto simp: occurring_count)
qed

lemma sector_titles:
  "map (\<lambda>(sec, keywords). title sec) sector_keywords =
     [''Automotive'', ''Healthcare'', ''Financial'', ''Education'', ''Law Enforcement'',
      ''Employment'', ''Critical Infrastructure'', ''Border Control'', ''Justice'']"
  by code_simp

lemma sector_title_not_general:
  "i < length sector_keywords \<Longrightarrow> title (fst (sector_keywords ! i)) \<noteq> ''General''"
proof -
  assume i: "i < length sector_keywords"
  have "title (fst (sector_keywords ! i))
          = map (\<lambda>(sec, keywords). title sec) sector_keywords ! i"
    using i by (simp add: case_prod_beta)
  also have "\<dots> \<in> set (map (\<lambda>(sec, keywords). title sec) sector_keywords)"
    using i by (intro nth_mem) simp
  finally show ?thesis unfolding sector_titles by auto
qed

lemma sector_first_maximum:
  assumes i: "i < length sector_keywords"
    and pos: "0 < sector_scores t ! i"
    and first: "\<forall>n\<in>set (take i (sector_scores t)). n < sector_scores t ! i"
    and top: "\<forall>n\<in>set (sector_scores t). n \<le> sector_scores t ! i"
  shows "an_sector (analyze_description t nm co) = title (fst (sector_keywords ! i))"
proof -
  let ?sc = "keyword_counts sector_keywords (lower t)"
  have e: "sector_scores t = ?sc" by (rule sector_scores_counts)
  have len: "length ?sc = length sector_keywords" by (simp add: keyword_counts_def)
  have "?sc ! i \<in> set ?sc" using i len by simp
  with pos have neg: "\<not> (\<forall>n\<in>set ?sc. n \<le> 0)" unfolding e by auto
  have "\<exists>j<length sector_keywords.
          sector_loop sector_keywords (lower t) (''General'', 0)
            = (title (fst (sector_keywords ! j)), ?sc ! j)
          \<and> 0 < ?sc ! j
          \<and> (\<forall>n\<in>set (take j ?sc). n < ?sc ! j)
          \<and> (\<forall>n\<in>set ?sc. n \<le> ?sc ! j)"
    using sector_loop_spec [of sector_keywords "lower t" 0 "''General''"]
    by (simp only: neg if_False)
  then obtain j where j: "j < length sector_keywords"
    and r: "sector_loop sector_keywords (lower t) (''General'', 0)
              = (title (fst (sector_keywords ! j)), ?sc ! j)"
    and fj: "\<forall>n\<in>set (take j ?sc). n < ?sc ! j"
    and tj: "\<forall>n\<in>set ?sc. n \<le> ?sc ! j"
    by blast
  have "i = j"
    using first_maximum_unique [of i ?sc j] i j len first top fj tj unfolding e by simp
  then show ?thesis by (simp add: analysis_fields r)
qed

lemma sector_no_hit:
  assumes "\<forall>n\<in>set (sector_scores t). n = 0"
  shows "an_sector (analyze_description t nm co) = ''General''"
proof -
  have all: "\<forall>n\<in>set (keyword_counts sector_keywords (lower t)). n \<le> 0"
    using assms by (simp add: sector_scores_counts)
  have "sector_loop sector_keywords (lower t) (''General'', 0) = (''General'', 0)"
    using sector_loop_spec [of sector_keywords "lower t" 0 "''General''"]
    unfolding if_P [OF all] .
  then show ?thesis by (simp add: analysis_fields)
qed

text \<open>
  C5. For every ASCII corpus, the score of a sector is the number of distinct keywords of
  its set that occur in the corpus, letter case apart. With no hit at all the sector is
  "General". Otherwise the sector is the title-cased name of the first sector, in
  declaration order, whose score is maximal: a later sector replaces the running best only
  with a strictly greater score, and one hit suffices to replace the default. In
  particular, when exactly two sectors have one hit each and the others none, the earlier
  declared of the two is chosen. The harvested profile carries the sector of the analysed
  text.
\<close>

theorem sector_argmax_strict:
  "is_ascii t \<Longrightarrow>
   length (sector_scores t) = length sector_keywords
   \<and> length sector_keywords = 9
   \<and> ((\<forall>n\<in>set (sector_scores t). n = 0) \<longrightarrow>
        an_sector (analyze_description t nm co) = ''General'')
   \<and> (\<forall>i<length sector_keywords.
         0 < sector_scores t ! i
         \<and> (\<forall>n\<in>set (take i (sector_scores t)). n < sector_scores t ! i)
         \<and> (\<forall>n\<in>set (sector_scores t). n \<le> sector_scores t ! i) \<longrightarrow>
         an_sector (analyze_description t nm co) = title (fst (sector_keywords ! i))
         \<and> an_sector (analyze_description t nm co) \<noteq> ''General'')
   \<and> (\<forall>i j. i < j \<and> j < length sector_keywords
         \<and> sector_scores t ! i = 1 \<and> sector_scores t ! j = 1
         \<and> (\<forall>k<length sector_keywords. k \<noteq> i \<and> k \<noteq> j \<longrightarrow> sector_scores t ! k = 0)
         \<longrightarrow> an_sector (analyze_description t nm co) = title (fst (sector_keywords ! i)))
   \<and> sector (harvest_from_description en env nm co descr)
       = an_sector (analyze_description
           (combined_info descr (fst (search_step en env nm co descr))) nm co)"
proof (intro conjI allI impI)
  let ?sc = "sector_scores t"
  show len: "length ?sc = length sector_keywords" by (simp add: sector_scores_def)
  show "length sector_keywords = 9" by (simp add: sector_keywords_def)
  show "an_sector (analyze_description t nm co) = ''General''"
    if "\<forall>n\<in>set ?sc. n = 0" using that by (rule sector_no_hit)
  show "sector (harvest_from_description en env nm co descr)
       = an_sector (analyze_description
           (combined_info descr (fst (search_step en env nm co descr))) nm co)"
    by (rule harvest_fields(1))
next
  fix i
  assume i: "i < length sector_keywords"
    and h: "0 < sector_scores t ! i
         \<and> (\<forall>n\<in>set (take i (sector_scores t)). n < sector_scores t ! i)
         \<and> (\<forall>n\<in>set (sector_scores t). n \<le> sector_scores t ! i)"
  from h have r: "an_sector (analyze_description t nm co) = title (fst (sector_keywords ! i))"
    using sector_first_maximum [OF i] by blast
  show "an_sector (analyze_description t nm co) = title (fst (sector_keywords ! i))" by (rule r)
  show "an_sector (analyze_description t nm co) \<noteq> ''General''"
    unfolding r using i by (rule sector_title_not_general)
next
  fix i j
  let ?sc = "sector_scores t"
  assume a: "i < j \<and> j < length sector_keywords \<and> ?sc ! i = 1 \<and> ?sc ! j = 1
         \<and> (\<forall>k<length sector_keywords. k \<noteq> i \<and> k \<noteq> j \<longrightarrow> ?sc ! k = 0)"
  have len: "length ?sc = length sector_keywords" by (simp add: sector_scores_def)
  from a have i: "i < length sector_keywords" by simp
  have all: "?sc ! k \<le> 1" if "k < length sector_keywords" for k
    using a that by (cases "k = i \<or> k = j") auto
  have before: "?sc ! k = 0" if "k < i" for k
    using a that by auto
  have top: "\<forall>n\<in>set ?sc. n \<le> ?sc ! i"
    using all a len by (auto simp: in_set_conv_nth)
  have first: "\<forall>n\<in>set (take i ?sc). n < ?sc ! i"
    using before a by (auto simp: in_set_conv_nth)
  show "an_sector (analyze_description t nm co) = title (fst (sector_keywords ! i))"
    using sector_first_maximum [OF i _ first top] a by simp
qed

lemma example_scores:
  "sector_scores ''Bank CAR'' = [1, 0, 1, 0, 0, 0, 0, 0, 0]"
  "sector_scores ''Photo Filter'' = [0, 0, 0, 0, 0, 0, 0, 0, 0]"
  "sector_scores ''Car LOAN from a Bank'' = [1, 0, 2, 0, 0, 0, 0, 0, 0]"
  by (simp_all add: sector_scores_counts keyword_counts_def sector_keywords_def
      lower_def lower_char_ascii)

lemma automotive_first:
  "length sector_keywords = 9"
  "title (fst (sector_keywords ! 0)) = ''Automotive''"
  "title (fst (sector_keywords ! 2)) = ''Financial''"
  using sector_titles by (simp_all add: sector_keywords_def)

text \<open>
  Instances: "Bank CAR" has one hit for the automotive and one for the financial sector and
  resolves to the earlier declared one; "Photo Filter" has no hit; "Car LOAN from a Bank"
  has one automotive hit and two financial ones, and the later sector wins with the
  strictly greater score.
\<close>

theorem sector_argmax_strict_witness:
  "is_ascii ''Bank CAR'' \<and> is_ascii ''Photo Filter'' \<and> is_ascii ''Car LOAN from a Bank''
   \<and> sector_scores ''Bank CAR'' = [1, 0, 1, 0, 0, 0, 0, 0, 0]
   \<and> title (fst (sector_keywords ! 0)) = ''Automotive''
   \<and> title (fst (sector_keywords ! 2)) = ''Financial''
   \<and> an_sector (analyze_description ''Bank CAR'' ''Bot'' ''Acme'') = ''Automotive''
   \<and> sector_scores ''Photo Filter'' = [0, 0, 0, 0, 0, 0, 0, 0, 0]
   \<and> an_sector (analyze_description ''Photo Filter'' ''Bot'' ''Acme'') = ''General''
   \<and> sector_scores ''Car LOAN from a Bank'' = [1, 0, 2, 0, 0, 0, 0, 0, 0]
   \<and> an_sector (analyze_description ''Car LOAN from a Bank'' ''Bot'' ''Acme'') = ''Financial''"
proof -
  have asc: "is_ascii ''Bank CAR''" "is_ascii ''Photo Filter''" "is_ascii ''Car LOAN from a Bank''"
    by (simp_all add: is_ascii_def)
  note t1 = sector_argmax_strict [OF asc(1), of "''Bot''" "''Acme''" False offline_env "''x''"]
  note t2 = sector_argmax_strict [OF asc(2), of "''Bot''" "''Acme''" False offline_env "''x''"]
  note t3 = sector_argmax_strict [OF asc(3), of "''Bot''" "''Acme''" False offline_env "''x''"]
  from t1 have "\<forall>i j. i < j \<and> j < length sector_keywords
         \<and> sector_scores ''Bank CAR'' ! i = 1 \<and> sector_scores ''Bank CAR'' ! j = 1
         \<and> (\<forall>k<length sector_keywords. k \<noteq> i \<and> k \<noteq> j \<longrightarrow>
               sector_scores ''Bank CAR'' ! k = 0)
         \<longrightarrow> an_sector (analyze_description ''Bank CAR'' ''Bot'' ''Acme'')
               = title (fst (sector_keywords ! i))"
    by blast
  then have "(0::nat) < 2 \<and> 2 < length sector_keywords
         \<and> sector_scores ''Bank CAR'' ! 0 = 1 \<and> sector_scores ''Bank CAR'' ! 2 = 1
         \<and> (\<forall>k<length sector_keywords. k \<noteq> 0 \<and> k \<noteq> 2 \<longrightarrow>
               sector_scores ''Bank CAR'' ! k = 0)
         \<longrightarrow> an_sector (analyze_description ''Bank CAR'' ''Bot'' ''Acme'')
               = title (fst (sector_keywords ! 0))"
    by blast
  moreover have "\<forall>k<9. k \<noteq> 0 \<and> k \<noteq> 2 \<longrightarrow> [1, 0, 1, 0, 0, 0, 0, 0, 0::nat] ! k = 0"
    by (simp add: nth_Cons' less_Suc_eq numeral_nat All_less_Suc)
  ultimately have a: "an_sector (analyze_description ''Bank CAR'' ''Bot'' ''Acme'') = ''Automotive''"
    by (simp add: example_scores automotive_first)
  from t2 have "(\<forall>n\<in>set (sector_scores ''Photo Filter''). n = 0) \<longrightarrow>
        an_sector (analyze_description ''Photo Filter'' ''Bot'' ''Acme'') = ''General''"
    by blast
  then have g: "an_sector (analyze_description ''Photo Filter'' ''Bot'' ''Acme'') = ''General''"
    by (simp add: example_scores)
  from t3 have "\<forall>i<length sector_keywords.
         0 < sector_scores ''Car LOAN from a Bank'' ! i
         \<and> (\<forall>n\<in>set (take i (sector_scores ''Car LOAN from a Bank'')).
               n < sector_scores ''Car LOAN from a Bank'' ! i)
         \<and> (\<forall>n\<in>set (sector_scores ''Car LOAN from a Bank'').
               n \<le> sector_scores ''Car LOAN from a Bank'' ! i) \<longrightarrow>
         an_sector (analyze_description ''Car LOAN from a Bank'' ''Bot'' ''Acme'')
           = title (fst (sector_keywords ! i))"
    by blast
  then have "2 < length sector_keywords \<longrightarrow>
         0 < sector_scores ''Car LOAN from a Bank'' ! 2
         \<and> (\<forall>n\<in>set (take 2 (sector_scores ''Car LOAN from a Bank'')).
               n < sector_scores ''Car LOAN from a Bank'' ! 2)
         \<and> (\<forall>n\<in>set (sector_scores ''Car LOAN from a Bank'').
               n \<le> sector_scores ''Car LOAN from a Bank'' ! 2) \<longrightarrow>
         an_sector (analyze_description ''Car LOAN from a Bank'' ''Bot'' ''Acme'')
           = title (fst (sector_keywords ! 2))"
    by blast
  then have f: "an_sector (analyze_description ''Car LOAN from a Bank'' ''Bot'' ''Acme'') = ''Financial''"
    by (simp add: example_scores automotive_first)
  show ?thesis using asc a g f example_scores automotive_first by simp
qed

end
